theory Spec2Isabelle
  imports Main
begin

section \<open>Python string primitives used by \<open>backend.py\<close>\<close>

text \<open>
  A Python \<open>str\<close> is modelled as a \<open>string\<close>; a \<open>char\<close> stands for a code point
  below 256. \<open>None\<close> is \<open>None\<close> of an option type, and the truth value Python gives to
  an optional string (\<open>if x:\<close>, \<open>x or y\<close>) is written out by \<open>truthy\<close>.
\<close>

definition truthy :: "string option \<Rightarrow> bool" where
  "truthy x = (case x of None \<Rightarrow> False | Some s \<Rightarrow> s \<noteq> [])"

definition py_or :: "string option \<Rightarrow> string option \<Rightarrow> string option" where
  "py_or a b = (if truthy a then a else b)"

text \<open>\<open>str.isspace\<close> on one code point below 256.\<close>

definition isspace :: "char \<Rightarrow> bool" where
  "isspace c = ((of_char c :: nat) \<in> {9, 10, 11, 12, 13, 28, 29, 30, 31, 32, 133, 160})"

text \<open>\<open>s.strip()\<close> and \<open>s.strip("/")\<close>.\<close>

definition strip :: "string \<Rightarrow> string" where
  "strip s = rev (dropWhile isspace (rev (dropWhile isspace s)))"

definition strip_char :: "char \<Rightarrow> string \<Rightarrow> string" where
  "strip_char ch s = rev (dropWhile (\<lambda>c. c = ch) (rev (dropWhile (\<lambda>c. c = ch) s)))"

definition startswith :: "string \<Rightarrow> string \<Rightarrow> bool" where
  "startswith s p = (take (length p) s = p)"

text \<open>\<open>s.split(sep)\<close> for a one-character separator: never an empty list.\<close>

fun split :: "char \<Rightarrow> string \<Rightarrow> string list" where
  "split sep [] = [[]]"
| "split sep (c # cs) =
     (if c = sep then [] # split sep cs
      else (case split sep cs of [] \<Rightarrow> [[c]] | p # ps \<Rightarrow> (c # p) # ps))"

text \<open>\<open>sub in s\<close>.\<close>

fun contains :: "string \<Rightarrow> string \<Rightarrow> bool" where
  "contains sub [] = (sub = [])"
| "contains sub (c # cs) = (startswith (c # cs) sub \<or> contains sub cs)"

text \<open>
  \<open>SPOTIFY_ID_RE = re.compile(r"([A-Za-z0-9]{22})")\<close>: the class matches the three ASCII
  ranges only, and \<open>search\<close> returns the leftmost run of 22 such characters
  (\<open>m.group(1)\<close>), or \<open>None\<close>.
\<close>

definition alnum :: "char \<Rightarrow> bool" where
  "alnum c = (let n = (of_char c :: nat) in
     (65 \<le> n \<and> n \<le> 90) \<or> (97 \<le> n \<and> n \<le> 122) \<or> (48 \<le> n \<and> n \<le> 57))"

fun SPOTIFY_ID_RE_search :: "string \<Rightarrow> string option" where
  "SPOTIFY_ID_RE_search [] = None"
| "SPOTIFY_ID_RE_search (c # cs) =
     (if length (take 22 (c # cs)) = 22 \<and> list_all alnum (take 22 (c # cs))
      then Some (take 22 (c # cs))
      else SPOTIFY_ID_RE_search cs)"

section \<open>The identifier resolver\<close>

text \<open>
  \<open>urllib.parse.urlparse\<close> belongs to the Python standard library, not to the
  repository. The resolver takes it as a parameter: the result of parsing, or \<open>None\<close>
  when the call raises (the resolver catches every exception of that block).
\<close>

record parse_result =
  scheme :: string
  netloc :: string
  path :: string
  params :: string
  query :: string
  fragment :: string

text \<open>
  \<open>extract_id_from_input(value)\<close>, lines 127 to 149. Every caller passes a \<open>str\<close>;
  the result is the pair \<open>(kind, id)\<close>. \<open>extract_id_from_url\<close> is the \<open>try\<close> block of
  lines 135 to 145: \<open>None\<close> when the block raises or falls through to line 146.
\<close>

definition extract_id_from_url ::
  "(string \<Rightarrow> parse_result option) \<Rightarrow> string \<Rightarrow> (string option \<times> string option) option" where
  "extract_id_from_url urlparse v =
     (case urlparse v of
        None \<Rightarrow> None
      | Some p \<Rightarrow>
          if netloc p \<noteq> [] \<and> contains ''spotify'' (netloc p) then
            (let parts = split (CHR ''/'') (strip_char (CHR ''/'') (path p)) in
             if length parts \<ge> 2
             then Some (Some (parts ! 0), Some (hd (split (CHR ''?'') (parts ! 1))))
             else if parts \<noteq> [] then Some (None, Some (parts ! 0))
             else None)
          else None)"

definition extract_id_from_input ::
  "(string \<Rightarrow> parse_result option) \<Rightarrow> string \<Rightarrow> string option \<times> string option" where
  "extract_id_from_input urlparse value =
     (if value = [] then (None, None)
      else
        let v = strip value;
            parts = split (CHR '':'') v
        in
          if startswith v ''spotify:'' \<and> length parts \<ge> 3
          then (Some (parts ! 1), Some (parts ! 2))
          else
            (case extract_id_from_url urlparse v of
               Some r \<Rightarrow> r
             | None \<Rightarrow>
                 (case SPOTIFY_ID_RE_search v of
                    Some m \<Rightarrow> (None, Some m)
                  | None \<Rightarrow> (None, Some v))))"

section \<open>A model of \<open>urllib.parse.urlparse\<close>\<close>

text \<open>
  The standard-library function on a \<open>str\<close>, as in CPython 3.11.10: \<open>urlsplit\<close>, with
  the validation of a bracketed host by the \<open>ipaddress\<close> module, followed by the split
  of the path parameters. On code points below 256 the check of the normalised host
  (\<open>_checknetloc\<close>) never raises. The result is \<open>None\<close> where the function raises
  \<open>ValueError\<close>.
\<close>

definition ascii_alpha :: "char \<Rightarrow> bool" where
  "ascii_alpha c = (let n = (of_char c :: nat) in
     (65 \<le> n \<and> n \<le> 90) \<or> (97 \<le> n \<and> n \<le> 122))"

definition ascii_digit :: "char \<Rightarrow> bool" where
  "ascii_digit c = (let n = (of_char c :: nat) in 48 \<le> n \<and> n \<le> 57)"

definition hex_digit :: "char \<Rightarrow> bool" where
  "hex_digit c = (let n = (of_char c :: nat) in
     (48 \<le> n \<and> n \<le> 57) \<or> (65 \<le> n \<and> n \<le> 70) \<or> (97 \<le> n \<and> n \<le> 102))"

definition scheme_char :: "char \<Rightarrow> bool" where
  "scheme_char c = (alnum c \<or> c = CHR ''+'' \<or> c = CHR ''-'' \<or> c = CHR ''.'')"

definition lower :: "char \<Rightarrow> char" where
  "lower c = (let n = (of_char c :: nat) in
     if 65 \<le> n \<and> n \<le> 90 then char_of (n + 32) else c)"

text \<open>\<open>_WHATWG_C0_CONTROL_OR_SPACE\<close>: the code points up to 32.\<close>

definition c0_control_or_space :: "char \<Rightarrow> bool" where
  "c0_control_or_space c = ((of_char c :: nat) \<le> 32)"

text \<open>\<open>s.split(ch, 1)\<close> when \<open>ch\<close> occurs in \<open>s\<close>.\<close>

definition split_once :: "char \<Rightarrow> string \<Rightarrow> string \<times> string" where
  "split_once ch s = (takeWhile (\<lambda>c. c \<noteq> ch) s, drop 1 (dropWhile (\<lambda>c. c \<noteq> ch) s))"

definition netloc_char :: "char \<Rightarrow> bool" where
  "netloc_char c = (c \<noteq> CHR ''/'' \<and> c \<noteq> CHR ''?'' \<and> c \<noteq> CHR ''#'')"

text \<open>\<open>_splitparams(url)\<close>.\<close>

definition splitparams :: "string \<Rightarrow> string \<times> string" where
  "splitparams url =
     (if CHR ''/'' \<in> set url then
        (let last_seg = rev (takeWhile (\<lambda>c. c \<noteq> CHR ''/'') (rev url));
             front = take (length url - length last_seg) url
         in if CHR '';'' \<in> set last_seg
            then (front @ fst (split_once (CHR '';'') last_seg),
                  snd (split_once (CHR '';'') last_seg))
            else (url, []))
      else split_once (CHR '';'') url)"

definition uses_params :: "string list" where
  "uses_params = [[], ''ftp'', ''hdl'', ''prospero'', ''http'', ''imap'', ''https'',
     ''shttp'', ''rtsp'', ''rtsps'', ''rtspu'', ''sip'', ''sips'', ''mms'', ''sftp'', ''tel'']"

subsection \<open>The bracketed host\<close>

text \<open>
  \<open>_check_bracketed_host(hostname)\<close> raises unless the host is an IPvFuture literal
  (\<open>v\<close>, hexadecimal digits, a dot, and at least one more character) or a text that
  \<open>ipaddress.ip_address\<close> reads as an IPv6 address. The definitions below say when the
  constructors \<open>IPv4Address\<close> and \<open>IPv6Address\<close> accept a text.
\<close>

definition decimal :: "string \<Rightarrow> nat" where
  "decimal s = foldl (\<lambda>n c. 10 * n + (of_char c - 48)) 0 s"

text \<open>\<open>IPv4Address._parse_octet\<close>.\<close>

definition octet_ok :: "string \<Rightarrow> bool" where
  "octet_ok s = (s \<noteq> [] \<and> list_all ascii_digit s \<and> length s \<le> 3
                  \<and> (s = ''0'' \<or> hd s \<noteq> CHR ''0'') \<and> decimal s \<le> 255)"

definition ipv4_ok :: "string \<Rightarrow> bool" where
  "ipv4_ok s = (CHR ''/'' \<notin> set s \<and> s \<noteq> []
                 \<and> length (split (CHR ''.'') s) = 4 \<and> list_all octet_ok (split (CHR ''.'') s))"

text \<open>\<open>IPv6Address._parse_hextet\<close>.\<close>

definition hextet_ok :: "string \<Rightarrow> bool" where
  "hextet_ok s = (s \<noteq> [] \<and> list_all hex_digit s \<and> length s \<le> 4)"

text \<open>
  \<open>IPv6Address._ip_int_from_string\<close>. An IPv4 suffix that is accepted is replaced by two
  hextets before the parts are counted; \<open>skips\<close> are the empty parts strictly inside.
\<close>

definition ipv6_parts_ok :: "string list \<Rightarrow> bool" where
  "ipv6_parts_ok parts =
     (let n = length parts;
          skips = filter (\<lambda>i. parts ! i = []) [1 ..< n - 1]
      in if n > 9 then False
         else (case skips of
                 [] \<Rightarrow> n = 8 \<and> list_all hextet_ok parts
               | [skip_index] \<Rightarrow>
                   (let hi0 = skip_index;
                        lo0 = n - skip_index - 1;
                        hi = (if hd parts = [] then hi0 - 1 else hi0);
                        lo = (if last parts = [] then lo0 - 1 else lo0)
                    in (hd parts = [] \<longrightarrow> hi = 0) \<and> (last parts = [] \<longrightarrow> lo = 0)
                       \<and> hi + lo < 8
                       \<and> list_all hextet_ok (take hi parts)
                       \<and> list_all hextet_ok (drop (n - lo) parts))
               | _ \<Rightarrow> False))"

definition ipv6_int_ok :: "string \<Rightarrow> bool" where
  "ipv6_int_ok s =
     (let parts = split (CHR '':'') s
      in s \<noteq> [] \<and> length parts \<ge> 3
         \<and> (if CHR ''.'' \<in> set (last parts)
             then ipv4_ok (last parts) \<and> ipv6_parts_ok (butlast parts @ [''0'', ''0''])
             else ipv6_parts_ok parts))"

text \<open>\<open>IPv6Address(address)\<close>, with the scope id after a \<open>%\<close>.\<close>

definition ipv6_ok :: "string \<Rightarrow> bool" where
  "ipv6_ok s =
     (CHR ''/'' \<notin> set s
      \<and> (if CHR ''%'' \<in> set s
          then snd (split_once (CHR ''%'') s) \<noteq> []
               \<and> CHR ''%'' \<notin> set (snd (split_once (CHR ''%'') s))
               \<and> ipv6_int_ok (fst (split_once (CHR ''%'') s))
          else ipv6_int_ok s))"

definition ipvfuture_ok :: "string \<Rightarrow> bool" where
  "ipvfuture_ok h =
     (takeWhile hex_digit (drop 1 h) \<noteq> []
      \<and> (case dropWhile hex_digit (drop 1 h) of
            [] \<Rightarrow> False
          | c # cs \<Rightarrow> c = CHR ''.'' \<and> cs \<noteq> []))"

definition check_bracketed_host :: "string \<Rightarrow> bool" where
  "check_bracketed_host h =
     (if startswith h ''v'' then ipvfuture_ok h else \<not> ipv4_ok h \<and> ipv6_ok h)"

subsection \<open>\<open>urlsplit\<close> and \<open>urlparse\<close>\<close>

definition py_urlparse :: "string \<Rightarrow> parse_result option" where
  "py_urlparse url0 =
     (let url1 = filter (\<lambda>c. c \<noteq> CHR 0x09 \<and> c \<noteq> CHR 0x0D \<and> c \<noteq> CHR 0x0A)
                   (dropWhile c0_control_or_space url0);
          pre = takeWhile (\<lambda>c. c \<noteq> CHR '':'') url1;
          has_scheme = (CHR '':'' \<in> set url1 \<and> pre \<noteq> [] \<and> ascii_alpha (hd url1)
                        \<and> list_all scheme_char pre);
          sch = (if has_scheme then map lower pre else []);
          url2 = (if has_scheme then drop (length pre + 1) url1 else url1);
          has_netloc = (take 2 url2 = ''//'');
          loc = (if has_netloc then takeWhile netloc_char (drop 2 url2) else []);
          url3 = (if has_netloc then dropWhile netloc_char (drop 2 url2) else url2);
          bracketed_host = takeWhile (\<lambda>c. c \<noteq> CHR '']'')
                             (drop 1 (dropWhile (\<lambda>c. c \<noteq> CHR ''['') loc));
          url4 = (if CHR ''#'' \<in> set url3 then fst (split_once (CHR ''#'') url3) else url3);
          frag = (if CHR ''#'' \<in> set url3 then snd (split_once (CHR ''#'') url3) else []);
          url5 = (if CHR ''?'' \<in> set url4 then fst (split_once (CHR ''?'') url4) else url4);
          qry = (if CHR ''?'' \<in> set url4 then snd (split_once (CHR ''?'') url4) else []);
          with_params = (sch \<in> set uses_params \<and> CHR '';'' \<in> set url5)
      in if (CHR ''['' \<in> set loc) \<noteq> (CHR '']'' \<in> set loc) then None
         else if CHR ''['' \<in> set loc \<and> \<not> check_bracketed_host bracketed_host then None
         else Some \<lparr> scheme = sch, netloc = loc,
                      path = (if with_params then fst (splitparams url5) else url5),
                      params = (if with_params then snd (splitparams url5) else []),
                      query = qry, fragment = frag \<rparr>)"

section \<open>The moderation store\<close>

text \<open>
  The three tables of \<open>ensure_tables\<close>. Every column but the primary key is nullable,
  so a stored value is an option (\<open>None\<close> is SQL \<open>NULL\<close>). A table that has not been
  created is \<open>None\<close>; a created table keeps its column definitions and maps a primary
  key to its row.
\<close>

type_synonym timestamp = nat

record song_row =
  song_name :: "string option"
  artist_id :: "string option"
  artist_name :: "string option"
  fixed :: "bool option"
  created_at :: "timestamp option"

record playlist_row =
  playlist_name :: "string option"
  blacklisted :: "bool option"
  updated_at :: "timestamp option"

record profile_row =
  added_at :: "timestamp option"

datatype sql_type = SqlText | SqlBoolean | SqlTimestamptz

datatype sql_default = NoDefault | DefaultBool bool | DefaultNow

record column =
  col_name :: string
  col_type :: sql_type
  col_primary_key :: bool
  col_default :: sql_default

record 'r table =
  columns :: "column list"
  rows :: "string \<rightharpoonup> 'r"

record db =
  blacklisted_songs :: "song_row table option"
  user_playlists :: "playlist_row table option"
  whitelisted_profiles :: "profile_row table option"

text \<open>
  A connection: the database it is attached to, the clock of the server, and what the
  server answers to the next statements (\<open>Some e\<close>: the statement raises \<open>e\<close>; beyond
  the end of the list the server executes the statement). The connection is in
  autocommit mode (line 55): every statement is a transaction of its own, so the
  effect of a statement stays when a later one raises, and \<open>NOW()\<close>, the start of the
  transaction, is later for each statement than for the one before. The clock \<open>now\<close>
  counts in ticks and has moved on by one when a statement is over.
\<close>

record conn =
  store :: db
  now :: timestamp
  pending :: "string option list"

type_synonym statement = "timestamp \<Rightarrow> db \<Rightarrow> string + db"

text \<open>\<open>cur.execute(s)\<close>: the exception raised, if any, and the connection afterwards.\<close>

definition execute :: "conn \<Rightarrow> statement \<Rightarrow> string option \<times> conn" where
  "execute c s =
     (case pending c of
        Some e # rest \<Rightarrow> (Some e, c\<lparr>now := Suc (now c), pending := rest\<rparr>)
      | _ \<Rightarrow>
          (case s (now c) (store c) of
             Inl e \<Rightarrow> (Some e, c\<lparr>now := Suc (now c), pending := tl (pending c)\<rparr>)
           | Inr d \<Rightarrow>
               (None, c\<lparr>store := d, now := Suc (now c), pending := tl (pending c)\<rparr>)))"

subsection \<open>\<open>ensure_tables\<close>, lines 61 to 90\<close>

definition blacklisted_songs_columns :: "column list" where
  "blacklisted_songs_columns =
     [\<lparr>col_name = ''song_id'', col_type = SqlText, col_primary_key = True, col_default = NoDefault\<rparr>,
      \<lparr>col_name = ''song_name'', col_type = SqlText, col_primary_key = False, col_default = NoDefault\<rparr>,
      \<lparr>col_name = ''artist_id'', col_type = SqlText, col_primary_key = False, col_default = NoDefault\<rparr>,
      \<lparr>col_name = ''artist_name'', col_type = SqlText, col_primary_key = False, col_default = NoDefault\<rparr>,
      \<lparr>col_name = ''fixed'', col_type = SqlBoolean, col_primary_key = False,
        col_default = DefaultBool False\<rparr>,
      \<lparr>col_name = ''created_at'', col_type = SqlTimestamptz, col_primary_key = False,
        col_default = DefaultNow\<rparr>]"

definition user_playlists_columns :: "column list" where
  "user_playlists_columns =
     [\<lparr>col_name = ''playlist_id'', col_type = SqlText, col_primary_key = True, col_default = NoDefault\<rparr>,
      \<lparr>col_name = ''playlist_name'', col_type = SqlText, col_primary_key = False, col_default = NoDefault\<rparr>,
      \<lparr>col_name = ''blacklisted'', col_type = SqlBoolean, col_primary_key = False,
        col_default = DefaultBool True\<rparr>,
      \<lparr>col_name = ''updated_at'', col_type = SqlTimestamptz, col_primary_key = False,
        col_default = DefaultNow\<rparr>]"

definition whitelisted_profiles_columns :: "column list" where
  "whitelisted_profiles_columns =
     [\<lparr>col_name = ''profile_id'', col_type = SqlText, col_primary_key = True, col_default = NoDefault\<rparr>,
      \<lparr>col_name = ''added_at'', col_type = SqlTimestamptz, col_primary_key = False,
        col_default = DefaultNow\<rparr>]"

text \<open>\<open>CREATE TABLE IF NOT EXISTS\<close>: an existing table is left as it is.\<close>

definition create_blacklisted_songs :: statement where
  "create_blacklisted_songs t d =
     (case blacklisted_songs d of
        None \<Rightarrow> Inr (d\<lparr>blacklisted_songs :=
                   Some \<lparr>columns = blacklisted_songs_columns, rows = Map.empty\<rparr>\<rparr>)
      | Some _ \<Rightarrow> Inr d)"

definition create_user_playlists :: statement where
  "create_user_playlists t d =
     (case user_playlists d of
        None \<Rightarrow> Inr (d\<lparr>user_playlists :=
                   Some \<lparr>columns = user_playlists_columns, rows = Map.empty\<rparr>\<rparr>)
      | Some _ \<Rightarrow> Inr d)"

definition create_whitelisted_profiles :: statement where
  "create_whitelisted_profiles t d =
     (case whitelisted_profiles d of
        None \<Rightarrow> Inr (d\<lparr>whitelisted_profiles :=
                   Some \<lparr>columns = whitelisted_profiles_columns, rows = Map.empty\<rparr>\<rparr>)
      | Some _ \<Rightarrow> Inr d)"

definition sqls :: "statement list" where
  "sqls = [create_blacklisted_songs, create_user_playlists, create_whitelisted_profiles]"

text \<open>The loop \<open>for s in sqls: cur.execute(s)\<close> stops at the first exception.\<close>

fun execute_each :: "conn \<Rightarrow> statement list \<Rightarrow> string option \<times> conn" where
  "execute_each c [] = (None, c)"
| "execute_each c (s # ss) =
     (case execute c s of
        (Some e, c') \<Rightarrow> (Some e, c')
      | (None, c') \<Rightarrow> execute_each c' ss)"

definition ensure_tables :: "conn \<Rightarrow> string option \<times> conn" where
  "ensure_tables c = execute_each c sqls"

subsection \<open>The three upserts, lines 92 to 124\<close>

text \<open>\<open>COALESCE(a, b)\<close>.\<close>

definition coalesce :: "'a option \<Rightarrow> 'a option \<Rightarrow> 'a option" where
  "coalesce a b = (case a of None \<Rightarrow> b | Some _ \<Rightarrow> a)"

text \<open>
  \<open>INSERT ... ON CONFLICT (song_id) DO UPDATE SET ...\<close>: \<open>excluded\<close> is the row proposed
  for insertion, \<open>old\<close> the row already stored under the key.
\<close>

definition sql_upsert_blacklisted_song ::
  "string \<Rightarrow> string option \<Rightarrow> string option \<Rightarrow> string option \<Rightarrow> bool \<Rightarrow> statement" where
  "sql_upsert_blacklisted_song key new_song_name new_artist_id new_artist_name new_fixed t d =
     (case blacklisted_songs d of
        None \<Rightarrow> Inl ''relation blacklisted_songs does not exist''
      | Some tab \<Rightarrow>
          (let excluded = \<lparr>song_name = new_song_name, artist_id = new_artist_id,
                 artist_name = new_artist_name, fixed = Some new_fixed, created_at = Some t\<rparr>;
               row = (case rows tab key of
                        None \<Rightarrow> excluded
                      | Some old \<Rightarrow>
                          old\<lparr>fixed := fixed excluded,
                              song_name := coalesce (song_name excluded) (song_name old),
                              artist_id := coalesce (artist_id excluded) (artist_id old),
                              artist_name := coalesce (artist_name excluded) (artist_name old)\<rparr>)
           in Inr (d\<lparr>blacklisted_songs := Some (tab\<lparr>rows := (rows tab)(key \<mapsto> row)\<rparr>)\<rparr>)))"

definition sql_upsert_user_playlist_blacklist ::
  "string \<Rightarrow> string option \<Rightarrow> bool \<Rightarrow> statement" where
  "sql_upsert_user_playlist_blacklist key new_playlist_name new_blacklisted t d =
     (case user_playlists d of
        None \<Rightarrow> Inl ''relation user_playlists does not exist''
      | Some tab \<Rightarrow>
          (let excluded = \<lparr>playlist_name = new_playlist_name,
                 blacklisted = Some new_blacklisted, updated_at = Some t\<rparr>;
               row = (case rows tab key of
                        None \<Rightarrow> excluded
                      | Some old \<Rightarrow>
                          old\<lparr>playlist_name :=
                                coalesce (playlist_name excluded) (playlist_name old),
                              blacklisted := blacklisted excluded,
                              updated_at := Some t\<rparr>)
           in Inr (d\<lparr>user_playlists := Some (tab\<lparr>rows := (rows tab)(key \<mapsto> row)\<rparr>)\<rparr>)))"

definition sql_upsert_whitelisted_profile :: "string \<Rightarrow> statement" where
  "sql_upsert_whitelisted_profile key t d =
     (case whitelisted_profiles d of
        None \<Rightarrow> Inl ''relation whitelisted_profiles does not exist''
      | Some tab \<Rightarrow>
          (case rows tab key of
             None \<Rightarrow> Inr (d\<lparr>whitelisted_profiles :=
                        Some (tab\<lparr>rows := (rows tab)(key \<mapsto> \<lparr>added_at = Some t\<rparr>)\<rparr>)\<rparr>)
           | Some old \<Rightarrow> Inr d))"

text \<open>
  The Python functions. Their last parameter has a default, \<open>fixed=True\<close> (line 92)
  and \<open>blacklisted=True\<close> (line 105): the argument is \<open>Some b\<close> for a call that gives it
  and \<open>None\<close> for a call that leaves it out, which Python then runs with the default.
  For the name parameters the default is \<open>None\<close> itself. The \<open>INSERT\<close> names every
  column, so the column defaults of the tables are never what is stored.
\<close>

definition param_default :: "'a \<Rightarrow> 'a option \<Rightarrow> 'a" where
  "param_default d arg = (case arg of None \<Rightarrow> d | Some v \<Rightarrow> v)"

definition upsert_blacklisted_song ::
  "conn \<Rightarrow> string \<Rightarrow> string option \<Rightarrow> string option \<Rightarrow> string option \<Rightarrow> bool option
     \<Rightarrow> string option \<times> conn" where
  "upsert_blacklisted_song c song_id new_song_name new_artist_id new_artist_name new_fixed =
     execute c (sql_upsert_blacklisted_song song_id new_song_name new_artist_id
                  new_artist_name (param_default True new_fixed))"

definition upsert_user_playlist_blacklist ::
  "conn \<Rightarrow> string \<Rightarrow> string option \<Rightarrow> bool option \<Rightarrow> string option \<times> conn" where
  "upsert_user_playlist_blacklist c playlist_id new_playlist_name new_blacklisted =
     execute c (sql_upsert_user_playlist_blacklist playlist_id new_playlist_name
                  (param_default True new_blacklisted))"

definition upsert_whitelisted_profile :: "conn \<Rightarrow> string \<Rightarrow> string option \<times> conn" where
  "upsert_whitelisted_profile c profile_id =
     execute c (sql_upsert_whitelisted_profile profile_id)"

text \<open>Reading a row back: \<open>None\<close> when the table or the row is missing.\<close>

definition song :: "db \<Rightarrow> string \<Rightarrow> song_row option" where
  "song d k = (case blacklisted_songs d of None \<Rightarrow> None | Some tab \<Rightarrow> rows tab k)"

definition user_playlist :: "db \<Rightarrow> string \<Rightarrow> playlist_row option" where
  "user_playlist d k = (case user_playlists d of None \<Rightarrow> None | Some tab \<Rightarrow> rows tab k)"

definition whitelisted_profile :: "db \<Rightarrow> string \<Rightarrow> profile_row option" where
  "whitelisted_profile d k =
     (case whitelisted_profiles d of None \<Rightarrow> None | Some tab \<Rightarrow> rows tab k)"

section \<open>The process environment and the enrichment client\<close>

text \<open>
  What the catalogue answers, as far as the routes read it: \<open>t.get("name")\<close>,
  \<open>t.get("artists")\<close> and the \<open>id\<close> and \<open>name\<close> of its first entry,
  \<open>p.get("name")\<close>, \<open>plist.get("owner")\<close> and its \<open>id\<close>. A missing key is \<open>None\<close>. A
  lookup that raises is \<open>Inl\<close> of the exception.
\<close>

record artist =
  a_id :: "string option"
  a_name :: "string option"

record track_info =
  t_name :: "string option"
  t_artists :: "artist list option"

record owner =
  o_id :: "string option"

record playlist_info =
  p_name :: "string option"
  p_owner :: "owner option"

record spotify =
  track :: "string \<Rightarrow> string + track_info"
  playlist :: "string \<Rightarrow> string + playlist_info"

text \<open>
  The module-level client \<open>_sp\<close> (\<open>None\<close> when its construction failed), the two
  variables \<open>get_db_conn\<close> reads from \<open>os.environ\<close>, and whether
  \<open>psycopg2.connect\<close> succeeds for a URL.
\<close>

record env =
  urlparse :: "string \<Rightarrow> parse_result option"
  sp :: "spotify option"
  environ :: "string \<rightharpoonup> string"
  connect :: "string \<Rightarrow> bool"

text \<open>\<open>get_db_conn()\<close>, lines 48 to 59; \<open>c\<close> is the connection a successful connect returns.\<close>

definition get_db_conn :: "env \<Rightarrow> conn \<Rightarrow> conn option" where
  "get_db_conn e c =
     (let db_url = py_or (environ e ''DATABASE_URL'') (environ e ''RAILWAY_DATABASE_URL'')
      in case db_url of
           None \<Rightarrow> None
         | Some url \<Rightarrow> if url = [] then None else if connect e url then Some c else None)"

section \<open>The HTTP routes\<close>

text \<open>
  The JSON body of a request: the value under \<open>"input"\<close> (\<open>None\<close> when the key is
  missing or null; the routes expect a string) and the truth value of the value under
  \<open>"blacklisted"\<close> (\<open>None\<close> when the key is missing).
\<close>

record request =
  payload_input :: "string option"
  payload_blacklisted :: "bool option"

text \<open>
  A response is its JSON body and its status. \<open>OkMsg m\<close> is \<open>{"ok": true, "msg": m}\<close>,
  \<open>ErrorMsg e\<close> is \<open>{"ok": false, "error": e}\<close>, and \<open>Unhandled x\<close> is the answer of the
  framework to an exception \<open>x\<close> that leaves the route: status 500, no JSON body of
  the route.
\<close>

datatype body = OkMsg string | ErrorMsg string | Unhandled string

type_synonym response = "body \<times> nat"

text \<open>\<open>val = (payload.get("input") or "").strip()\<close>.\<close>

definition request_val :: "request \<Rightarrow> string" where
  "request_val req = strip (case payload_input req of None \<Rightarrow> [] | Some s \<Rightarrow> s)"

text \<open>
  The kind-mismatch correction, lines 162 to 165 and 202 to 205, which differ in the
  expected kind only. \<open>SPOTIFY_ID_RE.search(None)\<close> raises \<open>TypeError\<close>.
\<close>

definition kind_correction ::
  "string \<Rightarrow> string option \<Rightarrow> string option \<Rightarrow> string + string option" where
  "kind_correction expected kind id_or_raw =
     (if truthy kind \<and> kind \<noteq> Some expected then
        (case id_or_raw of
           None \<Rightarrow> Inl ''TypeError''
         | Some i \<Rightarrow>
             (case SPOTIFY_ID_RE_search i of
                Some m \<Rightarrow> Inr (Some m)
              | None \<Rightarrow> Inr id_or_raw))
      else Inr id_or_raw)"

subsection \<open>\<open>api_blacklist_track\<close>, lines 158 to 193\<close>

text \<open>Lines 169 to 181: \<open>(song_name, artist_id, artist_name)\<close>.\<close>

definition lookup_track ::
  "spotify option \<Rightarrow> string \<Rightarrow> string option \<times> string option \<times> string option" where
  "lookup_track client track_id =
     (case client of
        None \<Rightarrow> (None, None, None)
      | Some cl \<Rightarrow>
          (case track cl track_id of
             Inl _ \<Rightarrow> (None, None, None)
           | Inr t \<Rightarrow>
               (case (case t_artists t of None \<Rightarrow> [] | Some as \<Rightarrow> as) of
                  [] \<Rightarrow> (t_name t, None, None)
                | a # _ \<Rightarrow> (t_name t, a_id a, a_name a))))"

text \<open>Lines 183 to 193.\<close>

definition store_track :: "env \<Rightarrow> string \<Rightarrow> conn \<Rightarrow> response \<times> conn" where
  "store_track e track_id c =
     (let (new_song_name, new_artist_id, new_artist_name) = lookup_track (sp e) track_id
      in case get_db_conn e c of
           None \<Rightarrow> ((ErrorMsg ''DB unavailable'', 500), c)
         | Some c0 \<Rightarrow>
             (case ensure_tables c0 of
                (Some ex, c1) \<Rightarrow> ((ErrorMsg ex, 500), c1)
              | (None, c1) \<Rightarrow>
                  (case upsert_blacklisted_song c1 track_id new_song_name new_artist_id
                          new_artist_name (Some True) of
                     (Some ex, c2) \<Rightarrow> ((ErrorMsg ex, 500), c2)
                   | (None, c2) \<Rightarrow>
                       ((OkMsg (''Blacklisted track '' @ track_id @ '' (fixed=true)''), 200),
                        c2))))"

definition api_blacklist_track :: "env \<Rightarrow> request \<Rightarrow> conn \<Rightarrow> response \<times> conn" where
  "api_blacklist_track e req c =
     (let val = request_val req;
          (kind, id_or_raw) = extract_id_from_input (urlparse e) val
      in case kind_correction ''track'' kind id_or_raw of
           Inl x \<Rightarrow> ((Unhandled x, 500), c)
         | Inr None \<Rightarrow> ((ErrorMsg ''Could not parse track id'', 400), c)
         | Inr (Some track_id) \<Rightarrow>
             if track_id = [] then ((ErrorMsg ''Could not parse track id'', 400), c)
             else store_track e track_id c)"

subsection \<open>\<open>api_blacklist_playlist\<close>, lines 196 to 227\<close>

text \<open>Lines 209 to 215: \<open>pname\<close>.\<close>

definition lookup_playlist_name :: "spotify option \<Rightarrow> string \<Rightarrow> string option" where
  "lookup_playlist_name client playlist_id =
     (case client of
        None \<Rightarrow> None
      | Some cl \<Rightarrow> (case playlist cl playlist_id of Inl _ \<Rightarrow> None | Inr p \<Rightarrow> p_name p))"

text \<open>\<open>str(b)\<close> of a \<open>bool\<close>, as the f-string of line 223 prints it.\<close>

definition str_bool :: "bool \<Rightarrow> string" where
  "str_bool b = (if b then ''True'' else ''False'')"

text \<open>Lines 217 to 227.\<close>

definition store_playlist :: "env \<Rightarrow> string \<Rightarrow> bool \<Rightarrow> conn \<Rightarrow> response \<times> conn" where
  "store_playlist e playlist_id blacklisted_flag c =
     (let pname = lookup_playlist_name (sp e) playlist_id
      in case get_db_conn e c of
           None \<Rightarrow> ((ErrorMsg ''DB unavailable'', 500), c)
         | Some c0 \<Rightarrow>
             (case ensure_tables c0 of
                (Some ex, c1) \<Rightarrow> ((ErrorMsg ex, 500), c1)
              | (None, c1) \<Rightarrow>
                  (case upsert_user_playlist_blacklist c1 playlist_id pname
                          (Some blacklisted_flag) of
                     (Some ex, c2) \<Rightarrow> ((ErrorMsg ex, 500), c2)
                   | (None, c2) \<Rightarrow>
                       ((OkMsg (''Playlist '' @ playlist_id @ '' upserted with blacklisted=''
                                @ str_bool blacklisted_flag), 200),
                        c2))))"

definition api_blacklist_playlist :: "env \<Rightarrow> request \<Rightarrow> conn \<Rightarrow> response \<times> conn" where
  "api_blacklist_playlist e req c =
     (let val = request_val req;
          blacklisted_flag = (case payload_blacklisted req of None \<Rightarrow> True | Some b \<Rightarrow> b);
          (kind, id_or_raw) = extract_id_from_input (urlparse e) val
      in case kind_correction ''playlist'' kind id_or_raw of
           Inl x \<Rightarrow> ((Unhandled x, 500), c)
         | Inr None \<Rightarrow> ((ErrorMsg ''Could not parse playlist id'', 400), c)
         | Inr (Some playlist_id) \<Rightarrow>
             if playlist_id = [] then ((ErrorMsg ''Could not parse playlist id'', 400), c)
             else store_playlist e playlist_id blacklisted_flag c)"

subsection \<open>\<open>api_whitelist_profile\<close>, lines 230 to 261\<close>

text \<open>
  Lines 238 to 246, the body of the \<open>if\<close> of line 237: the new \<open>candidate_id\<close>. A
  lookup with \<open>maybe_id = None\<close> raises inside the \<open>try\<close>.
\<close>

definition owner_redirect ::
  "spotify option \<Rightarrow> string option \<Rightarrow> string option \<Rightarrow> string option" where
  "owner_redirect client maybe_id candidate_id =
     (case client of
        None \<Rightarrow> candidate_id
      | Some cl \<Rightarrow>
          (case maybe_id of
             None \<Rightarrow> candidate_id
           | Some i \<Rightarrow>
               (case playlist cl i of
                  Inl _ \<Rightarrow> candidate_id
                | Inr plist \<Rightarrow>
                    (let owner_id = (case p_owner plist of None \<Rightarrow> None | Some ow \<Rightarrow> o_id ow)
                     in if truthy owner_id then owner_id else candidate_id))))"

text \<open>
  Lines 233 to 246: the \<open>candidate_id\<close>, or the exception of line 237, where
  \<open>SPOTIFY_ID_RE.search(candidate_id)\<close> is evaluated outside any \<open>try\<close>.
\<close>

definition whitelist_candidate :: "env \<Rightarrow> string \<Rightarrow> string + string option" where
  "whitelist_candidate e val =
     (let (kind, id_or_raw) = extract_id_from_input (urlparse e) val;
          candidate_id = id_or_raw;
          (maybe_kind, maybe_id) = extract_id_from_input (urlparse e) val
      in if maybe_kind = Some ''playlist''
         then Inr (owner_redirect (sp e) maybe_id candidate_id)
         else if truthy maybe_kind then Inr candidate_id
         else (case candidate_id of
                 None \<Rightarrow> Inl ''TypeError''
               | Some cand \<Rightarrow>
                   if SPOTIFY_ID_RE_search cand \<noteq> None
                   then Inr (owner_redirect (sp e) maybe_id candidate_id)
                   else Inr candidate_id))"

text \<open>Lines 251 to 261.\<close>

definition store_profile :: "env \<Rightarrow> string \<Rightarrow> conn \<Rightarrow> response \<times> conn" where
  "store_profile e candidate_id c =
     (case get_db_conn e c of
        None \<Rightarrow> ((ErrorMsg ''DB unavailable'', 500), c)
      | Some c0 \<Rightarrow>
          (case ensure_tables c0 of
             (Some ex, c1) \<Rightarrow> ((ErrorMsg ex, 500), c1)
           | (None, c1) \<Rightarrow>
               (case upsert_whitelisted_profile c1 candidate_id of
                  (Some ex, c2) \<Rightarrow> ((ErrorMsg ex, 500), c2)
                | (None, c2) \<Rightarrow>
                    ((OkMsg (''Whitelisted profile '' @ candidate_id), 200), c2))))"

definition api_whitelist_profile :: "env \<Rightarrow> request \<Rightarrow> conn \<Rightarrow> response \<times> conn" where
  "api_whitelist_profile e req c =
     (let val = request_val req
      in case whitelist_candidate e val of
           Inl x \<Rightarrow> ((Unhandled x, 500), c)
         | Inr None \<Rightarrow> ((ErrorMsg ''Could not parse profile or playlist owner id'', 400), c)
         | Inr (Some candidate_id) \<Rightarrow>
             if candidate_id = []
             then ((ErrorMsg ''Could not parse profile or playlist owner id'', 400), c)
             else store_profile e candidate_id c)"

section \<open>Concrete inputs\<close>

text \<open>
  A database with no table yet, a connection to it on which no statement fails, a
  process with a database URL and no enrichment client, the same process without any
  database URL, and a client that knows one playlist and its owner.
\<close>

definition fresh_db :: db where
  "fresh_db = \<lparr>blacklisted_songs = None, user_playlists = None, whitelisted_profiles = None\<rparr>"

definition fresh_conn :: conn where
  "fresh_conn = \<lparr>store = fresh_db, now = 997, pending = []\<rparr>"

text \<open>The same database once \<open>ensure_tables\<close> has run, and a connection to it.\<close>

definition ready_db :: db where
  "ready_db =
     \<lparr>blacklisted_songs = Some \<lparr>columns = blacklisted_songs_columns, rows = Map.empty\<rparr>,
      user_playlists = Some \<lparr>columns = user_playlists_columns, rows = Map.empty\<rparr>,
      whitelisted_profiles = Some \<lparr>columns = whitelisted_profiles_columns, rows = Map.empty\<rparr>\<rparr>"

definition ready_conn :: conn where
  "ready_conn = \<lparr>store = ready_db, now = 1000, pending = []\<rparr>"

text \<open>
  A connection, opened at time 2000, to a database that holds one song and one profile
  written at time 1000.
\<close>

definition stocked_conn :: conn where
  "stocked_conn =
     \<lparr>store =
        \<lparr>blacklisted_songs = Some \<lparr>columns = blacklisted_songs_columns,
           rows = [''4iV5W9uYEdYUVa79Axb7Rh'' \<mapsto>
                    \<lparr>song_name = Some ''X'', artist_id = None, artist_name = None,
                      fixed = Some True, created_at = Some 1000\<rparr>]\<rparr>,
         user_playlists = Some \<lparr>columns = user_playlists_columns, rows = Map.empty\<rparr>,
         whitelisted_profiles = Some \<lparr>columns = whitelisted_profiles_columns,
           rows = [''curator1'' \<mapsto> \<lparr>added_at = Some 1000\<rparr>]\<rparr>\<rparr>,
      now = 2000, pending = []\<rparr>"

definition plain_env :: env where
  "plain_env = \<lparr>urlparse = py_urlparse, sp = None,
     environ = [''DATABASE_URL'' \<mapsto> ''postgres://db''], connect = (\<lambda>url. True)\<rparr>"

definition offline_env :: env where
  "offline_env = \<lparr>urlparse = py_urlparse, sp = None,
     environ = Map.empty, connect = (\<lambda>url. True)\<rparr>"

definition catalogue :: spotify where
  "catalogue = \<lparr>track = (\<lambda>i. Inl ''not found''),
     playlist = (\<lambda>i. if i = ''37i9dQZF1DXcBWIGoYBM5M''
                     then Inr \<lparr>p_name = Some ''Top 50'', p_owner = Some \<lparr>o_id = Some ''curator1''\<rparr>\<rparr>
                     else Inl ''not found'')\<rparr>"

definition enriched_env :: env where
  "enriched_env = \<lparr>urlparse = py_urlparse, sp = Some catalogue,
     environ = [''DATABASE_URL'' \<mapsto> ''postgres://db''], connect = (\<lambda>url. True)\<rparr>"

section \<open>The empty input\<close>

lemma strip_Nil: "strip [] = []"
  by (simp add: strip_def)

lemma extract_id_from_input_Nil: "extract_id_from_input up [] = (None, None)"
  by (simp add: extract_id_from_input_def)

lemma request_val_empty: "request_val \<lparr>payload_input = Some [], payload_blacklisted = b\<rparr> = []"
  by (simp add: request_val_def strip_Nil)

lemma api_blacklist_track_empty_input:
  "api_blacklist_track e \<lparr>payload_input = Some [], payload_blacklisted = b\<rparr> c
     = ((ErrorMsg ''Could not parse track id'', 400), c)"
  by (simp add: api_blacklist_track_def request_val_empty extract_id_from_input_Nil
      kind_correction_def truthy_def)

lemma api_blacklist_playlist_empty_input:
  "api_blacklist_playlist e \<lparr>payload_input = Some [], payload_blacklisted = b\<rparr> c
     = ((ErrorMsg ''Could not parse playlist id'', 400), c)"
  by (simp add: api_blacklist_playlist_def request_val_empty extract_id_from_input_Nil
      kind_correction_def truthy_def)

text \<open>
  C1. With the empty string as input, \<open>api_blacklist_track\<close> and
  \<open>api_blacklist_playlist\<close> answer 400 (the two lemmas above). \<open>api_whitelist_profile\<close>
  does not reach its own 400 of line 249: the resolver returns \<open>(None, None)\<close>, the
  condition of line 237 evaluates \<open>SPOTIFY_ID_RE.search(None)\<close>, and the \<open>TypeError\<close>
  leaves the route, so the answer is a 500 of the framework. Nothing is written in
  either case.
\<close>

theorem api_whitelist_profile_empty_input:
  "api_whitelist_profile e \<lparr>payload_input = Some [], payload_blacklisted = b\<rparr> c
     = ((Unhandled ''TypeError'', 500), c)"
  by (simp add: api_whitelist_profile_def request_val_empty whitelist_candidate_def
      extract_id_from_input_Nil truthy_def)

section \<open>The resolver on URIs\<close>

lemma alnum_not_space: "alnum c \<Longrightarrow> \<not> isspace c"
  by (auto simp: alnum_def isspace_def Let_def)

lemma alnum_not_colon: "alnum c \<Longrightarrow> c \<noteq> CHR '':''"
  by (auto simp: alnum_def Let_def)

lemma dropWhile_append_stop:
  "\<not> P b \<Longrightarrow> dropWhile P (xs @ b # ys) = dropWhile P xs @ b # ys"
  by (induction xs) auto

lemma strip_between:
  assumes "\<not> isspace a" "\<not> isspace b"
  shows "strip (a # xs @ b # ys) = a # xs @ b # rev (dropWhile isspace (rev ys))"
  using assms by (simp add: strip_def dropWhile_append_stop)

lemma split_no_sep: "sep \<notin> set a \<Longrightarrow> split sep a = [a]"
  by (induction a) auto

lemma split_append_sep: "sep \<notin> set a \<Longrightarrow> split sep (a @ sep # b) = a # split sep b"
  by (induction a) auto

lemma rstrip_colon:
  "rev (dropWhile isspace (rev (CHR '':'' # r))) = CHR '':'' # rev (dropWhile isspace (rev r))"
  by (simp add: dropWhile_append_stop isspace_def)

text \<open>
  C2, as amended. The resolver takes the URI branch only when the text starts with the
  literal prefix \<open>spotify:\<close> (line 131). For every input \<open>spotify:kind:id\<close>, followed or
  not by further colon-delimited segments, where \<open>kind\<close> holds no colon and \<open>id\<close> is a
  22-character alphanumeric token, the resolver returns exactly \<open>(kind, id)\<close>, whatever
  \<open>urlparse\<close> does.
\<close>

theorem extract_id_from_input_spotify_uri:
  assumes kind: "CHR '':'' \<notin> set kind"
    and len: "length ident = 22"
    and aln: "list_all alnum ident"
    and tail: "tail = [] \<or> (\<exists>r. tail = CHR '':'' # r)"
  shows "extract_id_from_input up (''spotify:'' @ kind @ '':'' @ ident @ tail)
           = (Some kind, Some ident)"
proof -
  obtain xs b where ident: "ident = xs @ [b]"
    using len by (cases ident rule: rev_cases) auto
  have b: "\<not> isspace b" and nocolon: "CHR '':'' \<notin> set ident"
    using aln ident alnum_not_space alnum_not_colon by (auto simp: list_all_iff)
  define tail' where "tail' = rev (dropWhile isspace (rev tail))"
  have tail': "tail' = [] \<or> (\<exists>r. tail' = CHR '':'' # r)"
  proof (cases tail)
    case Nil
    then show ?thesis by (simp add: tail'_def)
  next
    case (Cons c r)
    with tail have "tail = CHR '':'' # r" by simp
    then have "tail' = CHR '':'' # rev (dropWhile isspace (rev r))"
      unfolding tail'_def by (simp only: rstrip_colon)
    then show ?thesis by blast
  qed
  have "strip (CHR ''s'' # (''potify:'' @ kind @ '':'' @ xs) @ b # tail)
          = CHR ''s'' # (''potify:'' @ kind @ '':'' @ xs) @ b # tail'"
    unfolding tail'_def by (rule strip_between) (simp add: isspace_def, rule b)
  then have v: "strip (''spotify:'' @ kind @ '':'' @ ident @ tail)
                  = ''spotify:'' @ kind @ '':'' @ ident @ tail'"
    by (simp add: ident)
  have p1: "split (CHR '':'') (''spotify'' @ CHR '':'' # (kind @ CHR '':'' # (ident @ tail')))
          = ''spotify'' # split (CHR '':'') (kind @ CHR '':'' # (ident @ tail'))"
    by (rule split_append_sep) simp
  have p2: "split (CHR '':'') (kind @ CHR '':'' # (ident @ tail'))
          = kind # split (CHR '':'') (ident @ tail')"
    by (rule split_append_sep) (rule kind)
  have p3: "\<exists>ps. split (CHR '':'') (ident @ tail') = ident # ps"
    using tail' nocolon by (auto simp: split_no_sep split_append_sep)
  from p1 p2 p3 obtain ps where
    parts: "split (CHR '':'') (''spotify:'' @ kind @ '':'' @ ident @ tail')
              = ''spotify'' # kind # ident # ps"
    by auto
  have sw: "startswith (''spotify:'' @ kind @ '':'' @ ident @ tail') ''spotify:''"
    by (simp add: startswith_def)
  show ?thesis
    unfolding extract_id_from_input_def v Let_def using parts sw by simp
qed

text \<open>The amended C2 at \<open>spotify:track:4iV5W9uYEdYUVa79Axb7Rh\<close>.\<close>

theorem extract_id_from_input_spotify_uri_witness:
  "CHR '':'' \<notin> set ''track'' \<and> length ''4iV5W9uYEdYUVa79Axb7Rh'' = 22
     \<and> list_all alnum ''4iV5W9uYEdYUVa79Axb7Rh''
     \<and> extract_id_from_input py_urlparse ''spotify:track:4iV5W9uYEdYUVa79Axb7Rh''
         = (Some ''track'', Some ''4iV5W9uYEdYUVa79Axb7Rh'')"
  using extract_id_from_input_spotify_uri
    [of "''track''" "''4iV5W9uYEdYUVa79Axb7Rh''" "[]" py_urlparse]
  by (simp add: alnum_def)

text \<open>
  C2 as stated (any scheme token) fails: \<open>foo:track:4iV5W9uYEdYUVa79Axb7Rh\<close> has three
  colon-delimited segments and a 22-character alphanumeric id, but it does not start
  with \<open>spotify:\<close>, \<open>urlparse\<close> finds no network location in it, and the bare-id search
  returns the id with no kind.
\<close>

theorem extract_id_from_input_other_scheme:
  "extract_id_from_input py_urlparse ''foo:track:4iV5W9uYEdYUVa79Axb7Rh''
     = (None, Some ''4iV5W9uYEdYUVa79Axb7Rh'')
   \<and> extract_id_from_input py_urlparse ''foo:track:4iV5W9uYEdYUVa79Axb7Rh''
     \<noteq> (Some ''track'', Some ''4iV5W9uYEdYUVa79Axb7Rh'')"
  by code_simp

section \<open>The upserts\<close>

lemma execute_failed: "execute c s = (Some e, c') \<Longrightarrow> store c' = store c"
  by (auto simp: execute_def split: list.splits option.splits sum.splits)

lemma execute_done: "execute c s = (None, c') \<Longrightarrow> Inr (store c') = s (now c) (store c)"
  by (auto simp: execute_def split: list.splits option.splits sum.splits)

lemma execute_clock: "execute c s = (r, c') \<Longrightarrow> now c' = Suc (now c)"
  by (auto simp: execute_def split: list.splits option.splits sum.splits)

lemma upsert_blacklisted_song_failed:
  "upsert_blacklisted_song c k nm ai an fx = (Some e, c') \<Longrightarrow> store c' = store c"
  unfolding upsert_blacklisted_song_def by (rule execute_failed)

lemma upsert_blacklisted_song_done:
  assumes "upsert_blacklisted_song c k nm ai an fx = (None, c')"
  shows "song (store c') k = Some
           (case song (store c) k of
              None \<Rightarrow> \<lparr>song_name = nm, artist_id = ai, artist_name = an,
                         fixed = Some (param_default True fx), created_at = Some (now c)\<rparr>
            | Some old \<Rightarrow> old\<lparr>fixed := Some (param_default True fx),
                               song_name := coalesce nm (song_name old),
                               artist_id := coalesce ai (artist_id old),
                               artist_name := coalesce an (artist_name old)\<rparr>)"
  using execute_done [OF assms [unfolded upsert_blacklisted_song_def]]
  by (auto simp: sql_upsert_blacklisted_song_def song_def Let_def split: option.splits)

lemma upsert_blacklisted_song_other:
  assumes "upsert_blacklisted_song c k nm ai an fx = (r, c')" "k' \<noteq> k"
  shows "song (store c') k' = song (store c) k'"
proof (cases r)
  case None
  with assms(1) have "Inr (store c')
      = sql_upsert_blacklisted_song k nm ai an (param_default True fx) (now c) (store c)"
    unfolding upsert_blacklisted_song_def by (auto dest: execute_done)
  with assms(2) show ?thesis
    by (auto simp: sql_upsert_blacklisted_song_def song_def Let_def split: option.splits)
next
  case (Some e)
  with assms(1) show ?thesis by (simp add: upsert_blacklisted_song_failed)
qed

lemma upsert_user_playlist_blacklist_done:
  assumes "upsert_user_playlist_blacklist c k nm fl = (None, c')"
  shows "user_playlist (store c') k = Some
           (case user_playlist (store c) k of
              None \<Rightarrow> \<lparr>playlist_name = nm, blacklisted = Some (param_default True fl),
                         updated_at = Some (now c)\<rparr>
            | Some old \<Rightarrow> old\<lparr>playlist_name := coalesce nm (playlist_name old),
                               blacklisted := Some (param_default True fl),
                               updated_at := Some (now c)\<rparr>)"
  using execute_done [OF assms [unfolded upsert_user_playlist_blacklist_def]]
  by (auto simp: sql_upsert_user_playlist_blacklist_def user_playlist_def Let_def
      split: option.splits)

lemma upsert_whitelisted_profile_failed:
  "upsert_whitelisted_profile c k = (Some e, c') \<Longrightarrow> store c' = store c"
  unfolding upsert_whitelisted_profile_def by (rule execute_failed)

lemma upsert_whitelisted_profile_done:
  assumes "upsert_whitelisted_profile c k = (None, c')"
  shows "whitelisted_profile (store c') k = Some
           (case whitelisted_profile (store c) k of
              None \<Rightarrow> \<lparr>added_at = Some (now c)\<rparr>
            | Some old \<Rightarrow> old)"
  using execute_done [OF assms [unfolded upsert_whitelisted_profile_def]]
  by (auto simp: sql_upsert_whitelisted_profile_def whitelisted_profile_def
      split: option.splits)

lemma upsert_whitelisted_profile_existing:
  assumes "whitelisted_profile (store c) k = Some old"
    and "upsert_whitelisted_profile c k = (r, c')"
  shows "store c' = store c"
proof (cases r)
  case None
  with assms(2) have "Inr (store c') = sql_upsert_whitelisted_profile k (now c) (store c)"
    unfolding upsert_whitelisted_profile_def by (auto dest: execute_done)
  with assms(1) show ?thesis
    by (auto simp: sql_upsert_whitelisted_profile_def whitelisted_profile_def
        split: option.splits)
next
  case (Some e)
  with assms(2) show ?thesis by (simp add: upsert_whitelisted_profile_failed)
qed

text \<open>
  C3. After an upsert of a song that succeeded, a later upsert of the same \<open>song_id\<close>
  (on any connection to the same database, whether it succeeds or raises) leaves each
  of \<open>song_name\<close>, \<open>artist_id\<close> and \<open>artist_name\<close> at the non-null value the first one
  stored whenever it passes null for that field.
\<close>

theorem upsert_blacklisted_song_keeps_non_null:
  assumes first: "upsert_blacklisted_song c k nm ai an fx = (None, c1)"
    and same: "store c2 = store c1"
    and second: "upsert_blacklisted_song c2 k nm' ai' an' fx' = (r, c3)"
  shows "\<exists>row. song (store c3) k = Some row
           \<and> (nm \<noteq> None \<and> nm' = None \<longrightarrow> song_name row = nm)
           \<and> (ai \<noteq> None \<and> ai' = None \<longrightarrow> artist_id row = ai)
           \<and> (an \<noteq> None \<and> an' = None \<longrightarrow> artist_name row = an)"
proof -
  from upsert_blacklisted_song_done [OF first] obtain r1 where
    r1: "song (store c1) k = Some r1"
    and keep: "nm \<noteq> None \<longrightarrow> song_name r1 = nm" "ai \<noteq> None \<longrightarrow> artist_id r1 = ai"
      "an \<noteq> None \<longrightarrow> artist_name r1 = an"
    by (auto simp: coalesce_def split: option.splits)
  show ?thesis
  proof (cases r)
    case None
    with second have "upsert_blacklisted_song c2 k nm' ai' an' fx' = (None, c3)" by simp
    from upsert_blacklisted_song_done [OF this] r1 same keep show ?thesis
      by (auto simp: coalesce_def)
  next
    case (Some e)
    with second have "store c3 = store c2" by (simp add: upsert_blacklisted_song_failed)
    with r1 same keep show ?thesis by auto
  qed
qed

text \<open>
  C4. A playlist is upserted with \<open>blacklisted = True\<close> and then, on the connection the
  first write leaves, after any further time \<open>d\<close> and whatever the server has pending,
  with \<open>blacklisted = False\<close>, both writes succeeding: the stored flag is then false, and
  \<open>updated_at\<close> is strictly greater after the second write than after the first.
\<close>

theorem upsert_user_playlist_blacklist_overwrites_flag:
  assumes first: "upsert_user_playlist_blacklist c k nm (Some True) = (None, c1)"
    and second: "upsert_user_playlist_blacklist (c1\<lparr>now := now c1 + d, pending := p\<rparr>) k nm'
                   (Some False) = (None, c3)"
  shows "\<exists>r1 r3 t1 t3. user_playlist (store c1) k = Some r1 \<and> user_playlist (store c3) k = Some r3
           \<and> blacklisted r1 = Some True \<and> blacklisted r3 = Some False
           \<and> updated_at r1 = Some t1 \<and> updated_at r3 = Some t3 \<and> t1 < t3"
proof -
  from upsert_user_playlist_blacklist_done [OF first] obtain r1 where
    r1: "user_playlist (store c1) k = Some r1" "blacklisted r1 = Some True"
      "updated_at r1 = Some (now c)"
    by (auto simp: param_default_def split: option.splits)
  from first have clock: "now c1 = Suc (now c)"
    unfolding upsert_user_playlist_blacklist_def by (rule execute_clock)
  from upsert_user_playlist_blacklist_done [OF second] r1(1) obtain r3 where
    r3: "user_playlist (store c3) k = Some r3" "blacklisted r3 = Some False"
      "updated_at r3 = Some (now c1 + d)"
    by (auto simp: param_default_def)
  from clock have "now c < now c1 + d" by simp
  with r1 r3 show ?thesis by blast
qed


lemmas store_defs = param_default_def upsert_blacklisted_song_def
  sql_upsert_blacklisted_song_def
  upsert_user_playlist_blacklist_def sql_upsert_user_playlist_blacklist_def
  upsert_whitelisted_profile_def sql_upsert_whitelisted_profile_def

lemma ensure_tables_fresh_conn: "ensure_tables fresh_conn = (None, ready_conn)"
  by (simp add: ensure_tables_def sqls_def fresh_conn_def fresh_db_def execute_def
      ready_conn_def ready_db_def
      create_blacklisted_songs_def create_user_playlists_def create_whitelisted_profiles_def)

text \<open>C3 at a concrete song: the three metadata fields survive an upsert of nulls.\<close>

theorem upsert_blacklisted_song_keeps_non_null_witness:
  "\<exists>row. song (store (snd (upsert_blacklisted_song
        (snd (upsert_blacklisted_song ready_conn
                ''4iV5W9uYEdYUVa79Axb7Rh'' (Some ''X'') (Some ''A1'') (Some ''Artist'') (Some True)))
        ''4iV5W9uYEdYUVa79Axb7Rh'' None None None (Some True)))) ''4iV5W9uYEdYUVa79Axb7Rh'' = Some row
     \<and> song_name row = Some ''X'' \<and> artist_id row = Some ''A1''
     \<and> artist_name row = Some ''Artist''"
proof -
  let ?k = "''4iV5W9uYEdYUVa79Axb7Rh''"
  let ?c1 = "snd (upsert_blacklisted_song ready_conn ?k (Some ''X'') (Some ''A1'')
                    (Some ''Artist'') (Some True))"
  let ?c3 = "snd (upsert_blacklisted_song ?c1 ?k None None None (Some True))"
  have first: "upsert_blacklisted_song ready_conn ?k (Some ''X'') (Some ''A1'')
                 (Some ''Artist'') (Some True) = (None, ?c1)"
    by (simp add: store_defs execute_def ready_conn_def ready_db_def)
  have second: "upsert_blacklisted_song ?c1 ?k None None None (Some True)
                  = (fst (upsert_blacklisted_song ?c1 ?k None None None (Some True)), ?c3)"
    by simp
  from upsert_blacklisted_song_keeps_non_null [OF first refl second]
  show ?thesis by simp
qed

text \<open>C4 at a concrete playlist, written twice in a row.\<close>

theorem upsert_user_playlist_blacklist_overwrites_flag_witness:
  "\<exists>r1 r3 t1 t3.
     user_playlist (store (snd (upsert_user_playlist_blacklist ready_conn
        ''37i9dQZF1DXcBWIGoYBM5M'' None (Some True)))) ''37i9dQZF1DXcBWIGoYBM5M'' = Some r1
     \<and> user_playlist (store (snd (upsert_user_playlist_blacklist
          (snd (upsert_user_playlist_blacklist ready_conn ''37i9dQZF1DXcBWIGoYBM5M'' None (Some True)))
          ''37i9dQZF1DXcBWIGoYBM5M'' None (Some False)))) ''37i9dQZF1DXcBWIGoYBM5M'' = Some r3
     \<and> blacklisted r1 = Some True \<and> blacklisted r3 = Some False
     \<and> updated_at r1 = Some t1 \<and> updated_at r3 = Some t3 \<and> t1 < t3"
proof -
  let ?k = "''37i9dQZF1DXcBWIGoYBM5M''"
  let ?c1 = "snd (upsert_user_playlist_blacklist ready_conn ?k None (Some True))"
  let ?c3 = "snd (upsert_user_playlist_blacklist ?c1 ?k None (Some False))"
  have first: "upsert_user_playlist_blacklist ready_conn ?k None (Some True) = (None, ?c1)"
    by (simp add: store_defs execute_def ready_conn_def ready_db_def)
  have same: "?c1\<lparr>now := now ?c1 + 0, pending := []\<rparr> = ?c1"
    by (simp add: store_defs execute_def ready_conn_def ready_db_def)
  have "upsert_user_playlist_blacklist ?c1 ?k None (Some False) = (None, ?c3)"
    by (simp add: store_defs execute_def ready_conn_def ready_db_def)
  with same have second:
    "upsert_user_playlist_blacklist (?c1\<lparr>now := now ?c1 + 0, pending := []\<rparr>) ?k None (Some False)
       = (None, ?c3)"
    by simp
  from upsert_user_playlist_blacklist_overwrites_flag [OF first second]
  show ?thesis .
qed

section \<open>The bare-id search\<close>

lemma search_Some:
  "SPOTIFY_ID_RE_search s = Some m \<Longrightarrow>
     length m = 22 \<and> list_all alnum m \<and> (\<exists>pre post. s = pre @ m @ post)"
proof (induction s)
  case Nil
  then show ?case by simp
next
  case (Cons c cs)
  show ?case
  proof (cases "length (take 22 (c # cs)) = 22 \<and> list_all alnum (take 22 (c # cs))")
    case True
    with Cons.prems have m: "m = take 22 (c # cs)" by simp
    have "c # cs = [] @ take 22 (c # cs) @ drop 22 (c # cs)" by simp
    with True m show ?thesis by blast
  next
    case False
    with Cons.prems have "SPOTIFY_ID_RE_search cs = Some m" by (simp split: if_splits)
    from Cons.IH [OF this] obtain pre post where "cs = pre @ m @ post"
      and "length m = 22" "list_all alnum m" by blast
    then have "c # cs = (c # pre) @ m @ post" by simp
    with \<open>length m = 22\<close> \<open>list_all alnum m\<close> show ?thesis by blast
  qed
qed

lemma search_None:
  "SPOTIFY_ID_RE_search s = None \<Longrightarrow> s = pre @ m @ post \<Longrightarrow> length m = 22
     \<Longrightarrow> \<not> list_all alnum m"
proof (induction s arbitrary: pre)
  case Nil
  then show ?case by simp
next
  case (Cons c cs)
  show ?case
  proof (cases pre)
    case Nil
    with Cons.prems have "take 22 (c # cs) = m" by simp
    with Cons.prems(1,3) show ?thesis by (auto split: if_splits)
  next
    case (Cons p ps)
    with Cons.prems have "cs = ps @ m @ post" by simp
    moreover from Cons.prems(1) have "SPOTIFY_ID_RE_search cs = None"
      by (simp split: if_splits)
    ultimately show ?thesis using Cons.IH Cons.prems(3) by blast
  qed
qed

lemma search_nonempty: "SPOTIFY_ID_RE_search s = Some m \<Longrightarrow> m \<noteq> []"
  using search_Some by fastforce

section \<open>\<open>ensure_tables\<close> and the connection\<close>

lemma get_db_conn_Some: "get_db_conn e c = Some c0 \<Longrightarrow> c0 = c"
  by (auto simp: get_db_conn_def Let_def split: option.splits if_splits)

lemmas create_defs = create_blacklisted_songs_def create_user_playlists_def
  create_whitelisted_profiles_def

lemma create_keeps_rows:
  assumes "s \<in> set sqls" "s t d = Inr d'"
  shows "song d' k = song d k \<and> user_playlist d' k = user_playlist d k
           \<and> whitelisted_profile d' k = whitelisted_profile d k"
  using assms
  by (auto simp: sqls_def create_defs song_def user_playlist_def whitelisted_profile_def
      split: option.splits)

lemma execute_keeps_rows:
  assumes "s \<in> set sqls" "execute c s = (r, c')"
  shows "song (store c') k = song (store c) k
           \<and> user_playlist (store c') k = user_playlist (store c) k
           \<and> whitelisted_profile (store c') k = whitelisted_profile (store c) k"
proof (cases r)
  case None
  with assms(2) have "Inr (store c') = s (now c) (store c)" by (simp add: execute_done)
  then have "s (now c) (store c) = Inr (store c')" by simp
  from create_keeps_rows [OF assms(1) this] show ?thesis .
next
  case (Some e)
  with assms(2) show ?thesis by (simp add: execute_failed)
qed

lemma execute_each_keeps_rows:
  assumes "set ss \<subseteq> set sqls" "execute_each c ss = (r, c')"
  shows "song (store c') k = song (store c) k
           \<and> user_playlist (store c') k = user_playlist (store c) k
           \<and> whitelisted_profile (store c') k = whitelisted_profile (store c) k"
  using assms
proof (induction ss arbitrary: c)
  case Nil
  then show ?case by simp
next
  case (Cons s ss)
  obtain r1 c1 where ex: "execute c s = (r1, c1)" by (cases "execute c s")
  from Cons.prems(1) have s: "s \<in> set sqls" by simp
  note keep = execute_keeps_rows [OF s ex]
  show ?case
  proof (cases r1)
    case None
    with ex Cons.prems(2) have "execute_each c1 ss = (r, c')" by simp
    with Cons.IH [of c1] Cons.prems(1) keep show ?thesis by simp
  next
    case (Some e)
    with ex Cons.prems(2) have "c' = c1" by simp
    with keep show ?thesis by simp
  qed
qed

lemma ensure_tables_keeps_rows:
  assumes "ensure_tables c = (r, c')"
  shows "song (store c') k = song (store c) k
           \<and> user_playlist (store c') k = user_playlist (store c) k
           \<and> whitelisted_profile (store c') k = whitelisted_profile (store c) k"
  using execute_each_keeps_rows [of sqls c r c' k] assms by (simp add: ensure_tables_def)

lemma ensure_tables_no_fault:
  assumes "pending c = []"
  shows "\<exists>c'. ensure_tables c = (None, c') \<and> pending c' = [] \<and> now c' = now c + 3
           \<and> blacklisted_songs (store c') \<noteq> None \<and> user_playlists (store c') \<noteq> None
           \<and> whitelisted_profiles (store c') \<noteq> None"
  using assms
  by (simp add: ensure_tables_def sqls_def execute_def create_defs split: option.splits)

section \<open>The store step of the routes\<close>

lemma store_track_unavailable:
  "get_db_conn e c = None \<Longrightarrow> store_track e t c = ((ErrorMsg ''DB unavailable'', 500), c)"
  by (simp add: store_track_def split: prod.splits)

lemma store_playlist_unavailable:
  "get_db_conn e c = None \<Longrightarrow> store_playlist e p f c = ((ErrorMsg ''DB unavailable'', 500), c)"
  by (simp add: store_playlist_def)

lemma store_profile_unavailable:
  "get_db_conn e c = None \<Longrightarrow> store_profile e p c = ((ErrorMsg ''DB unavailable'', 500), c)"
  by (simp add: store_profile_def)

lemma upsert_whitelisted_profile_other:
  assumes "upsert_whitelisted_profile c k = (r, c')" "k' \<noteq> k"
  shows "whitelisted_profile (store c') k' = whitelisted_profile (store c) k'"
proof (cases r)
  case None
  with assms(1) have "Inr (store c') = sql_upsert_whitelisted_profile k (now c) (store c)"
    unfolding upsert_whitelisted_profile_def by (auto dest: execute_done)
  with assms(2) show ?thesis
    by (auto simp: sql_upsert_whitelisted_profile_def whitelisted_profile_def
        split: option.splits)
next
  case (Some e)
  with assms(1) show ?thesis by (simp add: upsert_whitelisted_profile_failed)
qed

lemma store_profile_other:
  assumes "k \<noteq> p"
  shows "whitelisted_profile (store (snd (store_profile e p c))) k
           = whitelisted_profile (store c) k"
proof (cases "get_db_conn e c")
  case None
  then show ?thesis by (simp add: store_profile_unavailable)
next
  case (Some c0)
  then have c0: "c0 = c" by (rule get_db_conn_Some)
  obtain r1 c1 where et: "ensure_tables c = (r1, c1)" by (cases "ensure_tables c")
  obtain r2 c2 where up: "upsert_whitelisted_profile c1 p = (r2, c2)"
    by (cases "upsert_whitelisted_profile c1 p")
  from ensure_tables_keeps_rows [OF et]
  have k1: "whitelisted_profile (store c1) k = whitelisted_profile (store c) k" by simp
  from upsert_whitelisted_profile_other [OF up assms]
  have k2: "whitelisted_profile (store c2) k = whitelisted_profile (store c1) k" .
  have "snd (store_profile e p c) = c1 \<or> snd (store_profile e p c) = c2"
    using Some c0 et up by (auto simp: store_profile_def split: option.splits)
  with k1 k2 show ?thesis by auto
qed

lemma upsert_whitelisted_profile_no_fault:
  assumes "pending c = []" "whitelisted_profiles (store c) \<noteq> None"
  shows "\<exists>c'. upsert_whitelisted_profile c k = (None, c')
           \<and> whitelisted_profile (store c') k \<noteq> None"
  using assms
  by (auto simp: upsert_whitelisted_profile_def sql_upsert_whitelisted_profile_def
      execute_def whitelisted_profile_def split: option.splits)

lemma store_profile_ok:
  assumes "get_db_conn e c \<noteq> None" "pending c = []"
  shows "fst (store_profile e p c) = (OkMsg (''Whitelisted profile '' @ p), 200)
           \<and> whitelisted_profile (store (snd (store_profile e p c))) p \<noteq> None"
proof -
  from assms(1) have conn: "get_db_conn e c = Some c"
    using get_db_conn_Some by (cases "get_db_conn e c") auto
  from ensure_tables_no_fault [OF assms(2)] obtain c1 where
    et: "ensure_tables c = (None, c1)" and c1: "pending c1 = []"
      "whitelisted_profiles (store c1) \<noteq> None"
    by blast
  from upsert_whitelisted_profile_no_fault [OF c1] obtain c2 where
    up: "upsert_whitelisted_profile c1 p = (None, c2)"
      and row: "whitelisted_profile (store c2) p \<noteq> None"
    by blast
  from conn et up row show ?thesis by (simp add: store_profile_def)
qed

text \<open>
  C9. A \<open>whitelist_profile\<close> request whose input resolves to a playlist, with an
  enrichment client whose lookup of that playlist succeeds and gives the owner id
  \<open>P1\<close>: the route goes on to the store with \<open>P1\<close>. No row under any other key, the
  playlist id included, is added or changed; and when a connection is obtained and no
  statement fails, the answer is 200 and the row \<open>P1\<close> is in \<open>whitelisted_profiles\<close>.
\<close>

theorem whitelist_profile_playlist_owner:
  assumes res: "extract_id_from_input (urlparse e) (request_val req)
                  = (Some ''playlist'', Some pid)"
    and client: "sp e = Some cl"
    and lookup: "playlist cl pid = Inr plist"
    and own: "p_owner plist = Some ow" "o_id ow = Some P1" "P1 \<noteq> []"
  shows "api_whitelist_profile e req c = store_profile e P1 c
         \<and> (\<forall>k. k \<noteq> P1 \<longrightarrow>
               whitelisted_profile (store (snd (api_whitelist_profile e req c))) k
                 = whitelisted_profile (store c) k)
         \<and> (get_db_conn e c \<noteq> None \<and> pending c = [] \<longrightarrow>
               fst (api_whitelist_profile e req c) = (OkMsg (''Whitelisted profile '' @ P1), 200)
               \<and> whitelisted_profile (store (snd (api_whitelist_profile e req c))) P1 \<noteq> None)"
proof -
  have cand: "whitelist_candidate e (request_val req) = Inr (Some P1)"
    using res client lookup own
    by (simp add: whitelist_candidate_def owner_redirect_def truthy_def)
  then have api: "api_whitelist_profile e req c = store_profile e P1 c"
    using own(3) by (simp add: api_whitelist_profile_def)
  show ?thesis
    unfolding api using store_profile_other [of _ P1 e c] store_profile_ok [of e c P1]
    by simp
qed

lemma request_val_literal:
  "request_val \<lparr>payload_input = Some s, payload_blacklisted = b\<rparr> = strip s"
  by (simp add: request_val_def)

text \<open>
  C9 at a playlist URI whose owner the catalogue gives as \<open>curator1\<close>: the answer is
  200, the row \<open>curator1\<close> is written, and no row is written under the playlist id.
\<close>

theorem whitelist_profile_playlist_owner_witness:
  "fst (api_whitelist_profile enriched_env
          \<lparr>payload_input = Some ''spotify:playlist:37i9dQZF1DXcBWIGoYBM5M'',
            payload_blacklisted = None\<rparr> fresh_conn)
     = (OkMsg ''Whitelisted profile curator1'', 200)
   \<and> whitelisted_profile (store (snd (api_whitelist_profile enriched_env
          \<lparr>payload_input = Some ''spotify:playlist:37i9dQZF1DXcBWIGoYBM5M'',
            payload_blacklisted = None\<rparr> fresh_conn))) ''curator1'' \<noteq> None
   \<and> whitelisted_profile (store (snd (api_whitelist_profile enriched_env
          \<lparr>payload_input = Some ''spotify:playlist:37i9dQZF1DXcBWIGoYBM5M'',
            payload_blacklisted = None\<rparr> fresh_conn))) ''37i9dQZF1DXcBWIGoYBM5M'' = None"
proof -
  let ?req = "\<lparr>payload_input = Some ''spotify:playlist:37i9dQZF1DXcBWIGoYBM5M'',
                payload_blacklisted = None\<rparr>"
  have v: "strip ''spotify:playlist:37i9dQZF1DXcBWIGoYBM5M''
             = ''spotify:playlist:37i9dQZF1DXcBWIGoYBM5M''"
    by code_simp
  have r: "extract_id_from_input py_urlparse ''spotify:playlist:37i9dQZF1DXcBWIGoYBM5M''
             = (Some ''playlist'', Some ''37i9dQZF1DXcBWIGoYBM5M'')"
    by code_simp
  have res: "extract_id_from_input (urlparse enriched_env) (request_val ?req)
               = (Some ''playlist'', Some ''37i9dQZF1DXcBWIGoYBM5M'')"
    by (simp add: request_val_literal v r enriched_env_def)
  have client: "sp enriched_env = Some catalogue" by (simp add: enriched_env_def)
  have lookup: "playlist catalogue ''37i9dQZF1DXcBWIGoYBM5M''
                  = Inr \<lparr>p_name = Some ''Top 50'', p_owner = Some \<lparr>o_id = Some ''curator1''\<rparr>\<rparr>"
    by (simp add: catalogue_def)
  have conn: "get_db_conn enriched_env fresh_conn \<noteq> None"
    by (simp add: get_db_conn_def enriched_env_def py_or_def truthy_def)
  have before: "whitelisted_profile (store fresh_conn) ''37i9dQZF1DXcBWIGoYBM5M'' = None"
    by (simp add: whitelisted_profile_def fresh_conn_def fresh_db_def)
  have pend: "pending fresh_conn = []" by (simp add: fresh_conn_def)
  have own1: "p_owner \<lparr>p_name = Some ''Top 50'', p_owner = Some \<lparr>o_id = Some ''curator1''\<rparr>\<rparr>
                = Some \<lparr>o_id = Some ''curator1''\<rparr>" by simp
  have own2: "o_id \<lparr>o_id = Some ''curator1''\<rparr> = Some ''curator1''" by simp
  have own3: "''curator1'' \<noteq> []" by simp
  note owner_thm = whitelist_profile_playlist_owner [OF res client lookup own1 own2 own3,
      of fresh_conn]
  from owner_thm conn pend
  have a: "fst (api_whitelist_profile enriched_env ?req fresh_conn)
             = (OkMsg (''Whitelisted profile '' @ ''curator1''), 200)
           \<and> whitelisted_profile (store (snd (api_whitelist_profile enriched_env ?req
                 fresh_conn))) ''curator1'' \<noteq> None"
    by blast
  from owner_thm
  have "\<forall>k. k \<noteq> ''curator1'' \<longrightarrow>
          whitelisted_profile (store (snd (api_whitelist_profile enriched_env ?req fresh_conn))) k
            = whitelisted_profile (store fresh_conn) k"
    by blast
  then have "whitelisted_profile (store (snd (api_whitelist_profile enriched_env ?req
                 fresh_conn))) ''37i9dQZF1DXcBWIGoYBM5M''
          = whitelisted_profile (store fresh_conn) ''37i9dQZF1DXcBWIGoYBM5M''"
    by simp
  with a before show ?thesis by simp
qed

text \<open>
  C10, as amended. A \<open>whitelist_profile\<close> request whose input resolves to a non-empty
  id, with the kind \<open>playlist\<close> or with no kind and an id in which the bare-id pattern
  matches: if the enrichment client is absent, or its lookup raises or gives no owner
  id, the route goes on to the store with the resolved id itself; when a connection is
  obtained and no statement fails, the answer is 200 and that id is a row of
  \<open>whitelisted_profiles\<close>.
\<close>

theorem whitelist_profile_without_owner:
  assumes res: "extract_id_from_input (urlparse e) (request_val req) = (kind, Some i)"
    and nonempty: "i \<noteq> []"
    and playlist_or_bare:
      "kind = Some ''playlist'' \<or> (\<not> truthy kind \<and> SPOTIFY_ID_RE_search i \<noteq> None)"
    and no_owner:
      "sp e = None
       \<or> (\<exists>cl. sp e = Some cl \<and>
             (case playlist cl i of
                Inl x \<Rightarrow> True
              | Inr plist \<Rightarrow>
                  \<not> truthy (case p_owner plist of None \<Rightarrow> None | Some ow \<Rightarrow> o_id ow)))"
  shows "api_whitelist_profile e req c = store_profile e i c
         \<and> (get_db_conn e c \<noteq> None \<and> pending c = [] \<longrightarrow>
               fst (api_whitelist_profile e req c) = (OkMsg (''Whitelisted profile '' @ i), 200)
               \<and> whitelisted_profile (store (snd (api_whitelist_profile e req c))) i \<noteq> None)"
proof -
  have redirect: "owner_redirect (sp e) (Some i) (Some i) = Some i"
  proof (cases "sp e")
    case None
    then show ?thesis by (simp add: owner_redirect_def)
  next
    case (Some cl)
    with no_owner have
      "case playlist cl i of
         Inl x \<Rightarrow> True
       | Inr plist \<Rightarrow> \<not> truthy (case p_owner plist of None \<Rightarrow> None | Some ow \<Rightarrow> o_id ow)"
      by simp
    with Some show ?thesis
      by (cases "playlist cl i") (simp_all add: owner_redirect_def)
  qed
  have "truthy (Some ''playlist'')" by (simp add: truthy_def)
  with playlist_or_bare res redirect
  have cand: "whitelist_candidate e (request_val req) = Inr (Some i)"
    by (auto simp: whitelist_candidate_def)
  then have api: "api_whitelist_profile e req c = store_profile e i c"
    using nonempty by (simp add: api_whitelist_profile_def)
  show ?thesis
    unfolding api using store_profile_ok [of e c i] by simp
qed

text \<open>
  C10 as stated fails where the id is empty: \<open>spotify:playlist:\<close> resolves to the kind
  \<open>playlist\<close> with the id \<open>""\<close>; with no enrichment client the candidate stays empty and
  line 248 answers 400; nothing is written.
\<close>

theorem whitelist_profile_empty_playlist_id:
  "extract_id_from_input (urlparse plain_env)
       (request_val \<lparr>payload_input = Some ''spotify:playlist:'', payload_blacklisted = None\<rparr>)
     = (Some ''playlist'', Some [])
   \<and> sp plain_env = None
   \<and> api_whitelist_profile plain_env
        \<lparr>payload_input = Some ''spotify:playlist:'', payload_blacklisted = None\<rparr> fresh_conn
     = ((ErrorMsg ''Could not parse profile or playlist owner id'', 400), fresh_conn)"
proof -
  have v: "strip ''spotify:playlist:'' = ''spotify:playlist:''" by code_simp
  have r: "extract_id_from_input py_urlparse ''spotify:playlist:'' = (Some ''playlist'', Some [])"
    by code_simp
  show ?thesis
    by (simp add: request_val_literal v r plain_env_def api_whitelist_profile_def
        whitelist_candidate_def owner_redirect_def)
qed

text \<open>
  The amended C10 at a playlist URI with no enrichment client: the playlist id is
  written as a profile, and the answer is 200.
\<close>

theorem whitelist_profile_without_owner_witness:
  "fst (api_whitelist_profile plain_env
          \<lparr>payload_input = Some ''spotify:playlist:37i9dQZF1DXcBWIGoYBM5M'',
            payload_blacklisted = None\<rparr> fresh_conn)
     = (OkMsg ''Whitelisted profile 37i9dQZF1DXcBWIGoYBM5M'', 200)
   \<and> whitelisted_profile (store (snd (api_whitelist_profile plain_env
          \<lparr>payload_input = Some ''spotify:playlist:37i9dQZF1DXcBWIGoYBM5M'',
            payload_blacklisted = None\<rparr> fresh_conn))) ''37i9dQZF1DXcBWIGoYBM5M'' \<noteq> None"
proof -
  let ?req = "\<lparr>payload_input = Some ''spotify:playlist:37i9dQZF1DXcBWIGoYBM5M'',
                payload_blacklisted = None\<rparr>"
  have v: "strip ''spotify:playlist:37i9dQZF1DXcBWIGoYBM5M''
             = ''spotify:playlist:37i9dQZF1DXcBWIGoYBM5M''"
    by code_simp
  have r: "extract_id_from_input py_urlparse ''spotify:playlist:37i9dQZF1DXcBWIGoYBM5M''
             = (Some ''playlist'', Some ''37i9dQZF1DXcBWIGoYBM5M'')"
    by code_simp
  have res: "extract_id_from_input (urlparse plain_env) (request_val ?req)
               = (Some ''playlist'', Some ''37i9dQZF1DXcBWIGoYBM5M'')"
    by (simp add: request_val_literal v r plain_env_def)
  have ne: "''37i9dQZF1DXcBWIGoYBM5M'' \<noteq> []" by simp
  have kind: "Some ''playlist'' = Some ''playlist''
      \<or> (\<not> truthy (Some ''playlist'') \<and> SPOTIFY_ID_RE_search ''37i9dQZF1DXcBWIGoYBM5M'' \<noteq> None)"
    by simp
  have no_owner: "sp plain_env = None
       \<or> (\<exists>cl. sp plain_env = Some cl \<and>
             (case playlist cl ''37i9dQZF1DXcBWIGoYBM5M'' of
                Inl x \<Rightarrow> True
              | Inr plist \<Rightarrow>
                  \<not> truthy (case p_owner plist of None \<Rightarrow> None | Some ow \<Rightarrow> o_id ow)))"
    by (simp add: plain_env_def)
  have conn: "get_db_conn plain_env fresh_conn \<noteq> None"
    by (simp add: get_db_conn_def plain_env_def py_or_def truthy_def)
  have pend: "pending fresh_conn = []" by (simp add: fresh_conn_def)
  from whitelist_profile_without_owner [OF res ne kind no_owner, of fresh_conn] conn pend
  have "fst (api_whitelist_profile plain_env ?req fresh_conn)
          = (OkMsg (''Whitelisted profile '' @ ''37i9dQZF1DXcBWIGoYBM5M''), 200)
        \<and> whitelisted_profile (store (snd (api_whitelist_profile plain_env ?req fresh_conn)))
            ''37i9dQZF1DXcBWIGoYBM5M'' \<noteq> None"
    by blast
  then show ?thesis by simp
qed

section \<open>The kind-mismatch correction\<close>

text \<open>
  C5, as amended. The second pass runs when the resolved kind is truthy, that is
  non-null and non-empty, and differs from the kind the route expects (\<open>if kind and
  kind != "track"\<close>). Then \<open>api_blacklist_track\<close> and \<open>api_blacklist_playlist\<close> search
  the resolved id for the 22-character pattern: the match, if there is one, is the id
  the route takes to the store; otherwise the resolved id is kept (and rejected with
  400 when it is empty).
\<close>

theorem kind_mismatch_second_pass:
  assumes res: "extract_id_from_input (urlparse e) (request_val req) = (Some k, Some i)"
    and k: "k \<noteq> []"
  shows "(k \<noteq> ''track'' \<longrightarrow>
            api_blacklist_track e req c =
              (case SPOTIFY_ID_RE_search i of
                 Some m \<Rightarrow> store_track e m c
               | None \<Rightarrow> if i = [] then ((ErrorMsg ''Could not parse track id'', 400), c)
                         else store_track e i c))
       \<and> (k \<noteq> ''playlist'' \<longrightarrow>
            api_blacklist_playlist e req c =
              (case SPOTIFY_ID_RE_search i of
                 Some m \<Rightarrow> store_playlist e m
                             (case payload_blacklisted req of None \<Rightarrow> True | Some b \<Rightarrow> b) c
               | None \<Rightarrow> if i = [] then ((ErrorMsg ''Could not parse playlist id'', 400), c)
                         else store_playlist e i
                                (case payload_blacklisted req of None \<Rightarrow> True | Some b \<Rightarrow> b) c))"
proof (cases "SPOTIFY_ID_RE_search i")
  case None
  with res k show ?thesis
    by (simp add: api_blacklist_track_def api_blacklist_playlist_def kind_correction_def
        truthy_def)
next
  case (Some m)
  then have "m \<noteq> []" by (rule search_nonempty)
  with Some res k show ?thesis
    by (simp add: api_blacklist_track_def api_blacklist_playlist_def kind_correction_def
        truthy_def)
qed


text \<open>
  The amended C5 at \<open>spotify:album:xx37i9dQZF1DXcBWIGoYBM5M\<close>: both routes go to the store
  with the first 22 characters of the 24-character id.
\<close>

theorem kind_mismatch_second_pass_witness:
  "api_blacklist_track plain_env
     \<lparr>payload_input = Some ''spotify:album:xx37i9dQZF1DXcBWIGoYBM5M'', payload_blacklisted = None\<rparr>
     fresh_conn
     = store_track plain_env ''xx37i9dQZF1DXcBWIGoYBM'' fresh_conn
   \<and> api_blacklist_playlist plain_env
     \<lparr>payload_input = Some ''spotify:album:xx37i9dQZF1DXcBWIGoYBM5M'', payload_blacklisted = None\<rparr>
     fresh_conn
     = store_playlist plain_env ''xx37i9dQZF1DXcBWIGoYBM'' True fresh_conn"
proof -
  let ?req = "\<lparr>payload_input = Some ''spotify:album:xx37i9dQZF1DXcBWIGoYBM5M'',
                payload_blacklisted = None\<rparr>"
  have v: "strip ''spotify:album:xx37i9dQZF1DXcBWIGoYBM5M''
             = ''spotify:album:xx37i9dQZF1DXcBWIGoYBM5M''"
    by code_simp
  have r: "extract_id_from_input py_urlparse ''spotify:album:xx37i9dQZF1DXcBWIGoYBM5M''
             = (Some ''album'', Some ''xx37i9dQZF1DXcBWIGoYBM5M'')"
    by code_simp
  have res: "extract_id_from_input (urlparse plain_env) (request_val ?req)
               = (Some ''album'', Some ''xx37i9dQZF1DXcBWIGoYBM5M'')"
    by (simp add: request_val_literal v r plain_env_def)
  have k: "''album'' \<noteq> []" by simp
  have m: "SPOTIFY_ID_RE_search ''xx37i9dQZF1DXcBWIGoYBM5M'' = Some ''xx37i9dQZF1DXcBWIGoYBM''"
    by code_simp
  from kind_mismatch_second_pass [OF res k, of fresh_conn] show ?thesis
    by (simp add: m del: SPOTIFY_ID_RE_search.simps)
qed

text \<open>
  C5 as stated fails for a kind that is non-null but empty. \<open>spotify::\<close> followed by 23
  letters resolves to the kind \<open>""\<close>, which differs from \<open>track\<close>, and the pattern
  matches the first 22 letters of the id; but \<open>kind\<close> is falsy, no second pass runs, and
  the row is written under the 23-letter id.
\<close>

theorem empty_kind_skips_second_pass:
  "extract_id_from_input (urlparse plain_env)
       (request_val \<lparr>payload_input = Some ''spotify::aaaaaaaaaaaaaaaaaaaaaaa'',
                      payload_blacklisted = None\<rparr>)
     = (Some [], Some ''aaaaaaaaaaaaaaaaaaaaaaa'')
   \<and> SPOTIFY_ID_RE_search ''aaaaaaaaaaaaaaaaaaaaaaa'' = Some ''aaaaaaaaaaaaaaaaaaaaaa''
   \<and> fst (api_blacklist_track plain_env
            \<lparr>payload_input = Some ''spotify::aaaaaaaaaaaaaaaaaaaaaaa'', payload_blacklisted = None\<rparr>
            fresh_conn)
       = (OkMsg ''Blacklisted track aaaaaaaaaaaaaaaaaaaaaaa (fixed=true)'', 200)
   \<and> song (store (snd (api_blacklist_track plain_env
            \<lparr>payload_input = Some ''spotify::aaaaaaaaaaaaaaaaaaaaaaa'', payload_blacklisted = None\<rparr>
            fresh_conn))) ''aaaaaaaaaaaaaaaaaaaaaaa'' \<noteq> None
   \<and> song (store (snd (api_blacklist_track plain_env
            \<lparr>payload_input = Some ''spotify::aaaaaaaaaaaaaaaaaaaaaaa'', payload_blacklisted = None\<rparr>
            fresh_conn))) ''aaaaaaaaaaaaaaaaaaaaaa'' = None"
proof -
  have v: "strip ''spotify::aaaaaaaaaaaaaaaaaaaaaaa'' = ''spotify::aaaaaaaaaaaaaaaaaaaaaaa''"
    by code_simp
  have r: "extract_id_from_input py_urlparse ''spotify::aaaaaaaaaaaaaaaaaaaaaaa''
             = (Some [], Some ''aaaaaaaaaaaaaaaaaaaaaaa'')"
    by code_simp
  have m: "SPOTIFY_ID_RE_search ''aaaaaaaaaaaaaaaaaaaaaaa'' = Some ''aaaaaaaaaaaaaaaaaaaaaa''"
    by code_simp
  have conn: "get_db_conn plain_env fresh_conn = Some fresh_conn"
    by (simp add: get_db_conn_def plain_env_def py_or_def truthy_def)
  have api: "api_blacklist_track plain_env
            \<lparr>payload_input = Some ''spotify::aaaaaaaaaaaaaaaaaaaaaaa'', payload_blacklisted = None\<rparr>
            fresh_conn = store_track plain_env ''aaaaaaaaaaaaaaaaaaaaaaa'' fresh_conn"
    by (simp add: api_blacklist_track_def request_val_literal v r plain_env_def
        kind_correction_def truthy_def)
  have client: "sp plain_env = None" by (simp add: plain_env_def)
  have up: "fst (upsert_blacklisted_song ready_conn ''aaaaaaaaaaaaaaaaaaaaaaa''
                   None None None (Some True)) = None"
    by (simp add: store_defs execute_def ready_conn_def ready_db_def)
  have st: "store_track plain_env ''aaaaaaaaaaaaaaaaaaaaaaa'' fresh_conn
      = ((OkMsg ''Blacklisted track aaaaaaaaaaaaaaaaaaaaaaa (fixed=true)'', 200),
         snd (upsert_blacklisted_song ready_conn ''aaaaaaaaaaaaaaaaaaaaaaa'' None None None (Some True)))"
    by (simp add: store_track_def conn client ensure_tables_fresh_conn lookup_track_def
        split_beta up)
  have rows: "song (store (snd (upsert_blacklisted_song ready_conn ''aaaaaaaaaaaaaaaaaaaaaaa''
                  None None None (Some True)))) ''aaaaaaaaaaaaaaaaaaaaaaa'' \<noteq> None
    \<and> song (store (snd (upsert_blacklisted_song ready_conn ''aaaaaaaaaaaaaaaaaaaaaaa''
                  None None None (Some True)))) ''aaaaaaaaaaaaaaaaaaaaaa'' = None"
    by (simp add: store_defs execute_def ready_conn_def ready_db_def song_def)
  have res: "extract_id_from_input (urlparse plain_env)
       (request_val \<lparr>payload_input = Some ''spotify::aaaaaaaaaaaaaaaaaaaaaaa'',
                      payload_blacklisted = None\<rparr>)
     = (Some [], Some ''aaaaaaaaaaaaaaaaaaaaaaa'')"
    by (simp add: request_val_literal v r plain_env_def)
  show ?thesis
    unfolding api st using rows res m by simp
qed

section \<open>Timestamps set once\<close>

text \<open>
  C6. \<open>created_at\<close> of a song and \<open>added_at\<close> of a profile are the \<open>NOW()\<close> of the
  statement that inserts the row. An upsert of a \<open>song_id\<close> that already has a row
  leaves its \<open>created_at\<close> as it was, whatever the arguments and whether the statement
  succeeds or raises; an upsert of a \<open>profile_id\<close> that already has a row leaves the
  whole database as it was.
\<close>

theorem created_at_added_at_set_once:
  "(song (store c) k = None \<and> upsert_blacklisted_song c k nm ai an fx = (None, c1) \<longrightarrow>
      (\<exists>row. song (store c1) k = Some row \<and> created_at row = Some (now c)))
   \<and> (\<forall>old. song (store c) k = Some old \<longrightarrow>
      (\<exists>row. song (store (snd (upsert_blacklisted_song c k nm ai an fx))) k = Some row
             \<and> created_at row = created_at old))
   \<and> (whitelisted_profile (store c) p = None \<and> upsert_whitelisted_profile c p = (None, c2) \<longrightarrow>
      whitelisted_profile (store c2) p = Some \<lparr>added_at = Some (now c)\<rparr>)
   \<and> (\<forall>old. whitelisted_profile (store c) p = Some old \<longrightarrow>
      store (snd (upsert_whitelisted_profile c p)) = store c)"
proof (intro conjI impI allI)
  assume "song (store c) k = None \<and> upsert_blacklisted_song c k nm ai an fx = (None, c1)"
  then show "\<exists>row. song (store c1) k = Some row \<and> created_at row = Some (now c)"
    using upsert_blacklisted_song_done [of c k nm ai an fx c1] by simp
next
  fix old
  assume old: "song (store c) k = Some old"
  obtain r c' where up: "upsert_blacklisted_song c k nm ai an fx = (r, c')"
    by (cases "upsert_blacklisted_song c k nm ai an fx")
  show "\<exists>row. song (store (snd (upsert_blacklisted_song c k nm ai an fx))) k = Some row
             \<and> created_at row = created_at old"
  proof (cases r)
    case None
    with up upsert_blacklisted_song_done [of c k nm ai an fx c'] old show ?thesis by simp
  next
    case (Some e)
    with up have "store c' = store c" by (simp add: upsert_blacklisted_song_failed)
    with up old show ?thesis by simp
  qed
next
  assume "whitelisted_profile (store c) p = None \<and> upsert_whitelisted_profile c p = (None, c2)"
  then show "whitelisted_profile (store c2) p = Some \<lparr>added_at = Some (now c)\<rparr>"
    using upsert_whitelisted_profile_done [of c p c2] by simp
next
  fix old
  assume "whitelisted_profile (store c) p = Some old"
  then show "store (snd (upsert_whitelisted_profile c p)) = store c"
    using upsert_whitelisted_profile_existing [of c p old "fst (upsert_whitelisted_profile c p)"
        "snd (upsert_whitelisted_profile c p)"]
    by simp
qed


text \<open>
  C6 at a song and a profile: inserted at time 1000, upserted again at time 2000, both
  still carry the time 1000, and the second whitelisting changes nothing.
\<close>

theorem created_at_added_at_set_once_witness:
  "(\<exists>row. song (store (snd (upsert_blacklisted_song ready_conn ''4iV5W9uYEdYUVa79Axb7Rh''
                (Some ''X'') None None (Some True)))) ''4iV5W9uYEdYUVa79Axb7Rh'' = Some row
          \<and> created_at row = Some 1000)
   \<and> (\<exists>row. song (store (snd (upsert_blacklisted_song stocked_conn ''4iV5W9uYEdYUVa79Axb7Rh''
                None None None (Some True)))) ''4iV5W9uYEdYUVa79Axb7Rh'' = Some row
          \<and> created_at row = Some 1000)
   \<and> whitelisted_profile (store (snd (upsert_whitelisted_profile ready_conn ''curator1'')))
        ''curator1'' = Some \<lparr>added_at = Some 1000\<rparr>
   \<and> store (snd (upsert_whitelisted_profile stocked_conn ''curator1'')) = store stocked_conn"
proof -
  let ?k = "''4iV5W9uYEdYUVa79Axb7Rh''"
  let ?c1 = "snd (upsert_blacklisted_song ready_conn ?k (Some ''X'') None None (Some True))"
  let ?c2 = "snd (upsert_whitelisted_profile ready_conn ''curator1'')"
  have s0: "song (store ready_conn) ?k = None"
    by (simp add: song_def ready_conn_def ready_db_def)
  have u0: "upsert_blacklisted_song ready_conn ?k (Some ''X'') None None (Some True) = (None, ?c1)"
    by (simp add: store_defs execute_def ready_conn_def ready_db_def)
  have p0: "whitelisted_profile (store ready_conn) ''curator1'' = None"
    by (simp add: whitelisted_profile_def ready_conn_def ready_db_def)
  have w0: "upsert_whitelisted_profile ready_conn ''curator1'' = (None, ?c2)"
    by (simp add: store_defs execute_def ready_conn_def ready_db_def)
  have n0: "now ready_conn = 1000" by (simp add: ready_conn_def)
  have s1: "song (store stocked_conn) ?k
              = Some \<lparr>song_name = Some ''X'', artist_id = None, artist_name = None,
                      fixed = Some True, created_at = Some 1000\<rparr>"
    by (simp add: song_def stocked_conn_def)
  have p1: "whitelisted_profile (store stocked_conn) ''curator1'' = Some \<lparr>added_at = Some 1000\<rparr>"
    by (simp add: whitelisted_profile_def stocked_conn_def)
  from created_at_added_at_set_once
    [of ready_conn ?k "Some ''X''" None None "Some True" ?c1 "''curator1''" ?c2] s0 u0 p0 w0 n0
  have first: "(\<exists>row. song (store ?c1) ?k = Some row \<and> created_at row = Some 1000)
      \<and> whitelisted_profile (store ?c2) ''curator1'' = Some \<lparr>added_at = Some 1000\<rparr>"
    by simp
  from created_at_added_at_set_once
    [of stocked_conn ?k None None None "Some True" _ "''curator1''"] s1 p1
  have later: "(\<exists>row. song (store (snd (upsert_blacklisted_song stocked_conn ?k
                    None None None (Some True)))) ?k = Some row \<and> created_at row = Some 1000)
      \<and> store (snd (upsert_whitelisted_profile stocked_conn ''curator1'')) = store stocked_conn"
    by simp
  from first later show ?thesis by blast
qed

lemma store_track_written:
  assumes "store_track e t c = ((b, 200), c')"
  shows "\<exists>row. song (store c') t = Some row \<and> fixed row = Some True"
proof -
  obtain nm ai an where lk: "lookup_track (sp e) t = (nm, ai, an)"
    by (cases "lookup_track (sp e) t") auto
  from assms lk obtain c0 c1 where
    et: "ensure_tables c0 = (None, c1)"
    and up: "upsert_blacklisted_song c1 t nm ai an (Some True) = (None, c')"
    by (auto simp: store_track_def split: option.splits prod.splits)
  from upsert_blacklisted_song_done [OF up] show ?thesis
    by (auto simp: param_default_def split: option.splits)
qed

lemma ensure_tables_creates_blacklisted_songs:
  assumes "blacklisted_songs (store c) = None" "ensure_tables c = (None, c')"
  shows "map_option columns (blacklisted_songs (store c')) = Some blacklisted_songs_columns"
  using assms
  by (auto simp: ensure_tables_def sqls_def execute_def create_defs
      split: list.splits option.splits sum.splits prod.splits)

section \<open>The default of \<open>fixed\<close>\<close>



section \<open>No connection\<close>

text \<open>
  C8, as amended. Each route validates the input before it asks for a connection. For
  every request whose input gives the route a non-empty id, if no connection can be
  obtained the answer is 500 with the error \<open>DB unavailable\<close>, and nothing changes.
\<close>

theorem db_unavailable:
  assumes "get_db_conn e c = None"
  shows "(\<forall>t. kind_correction ''track''
                (fst (extract_id_from_input (urlparse e) (request_val req)))
                (snd (extract_id_from_input (urlparse e) (request_val req))) = Inr (Some t)
              \<and> t \<noteq> [] \<longrightarrow>
            api_blacklist_track e req c = ((ErrorMsg ''DB unavailable'', 500), c))
       \<and> (\<forall>p. kind_correction ''playlist''
                (fst (extract_id_from_input (urlparse e) (request_val req)))
                (snd (extract_id_from_input (urlparse e) (request_val req))) = Inr (Some p)
              \<and> p \<noteq> [] \<longrightarrow>
            api_blacklist_playlist e req c = ((ErrorMsg ''DB unavailable'', 500), c))
       \<and> (\<forall>p. whitelist_candidate e (request_val req) = Inr (Some p) \<and> p \<noteq> [] \<longrightarrow>
            api_whitelist_profile e req c = ((ErrorMsg ''DB unavailable'', 500), c))"
  using assms
  by (auto simp: api_blacklist_track_def api_blacklist_playlist_def api_whitelist_profile_def
      store_track_unavailable store_playlist_unavailable store_profile_unavailable
      split: prod.splits)

text \<open>
  C8 as stated (regardless of the validity of the input) fails: with no database URL
  at all, the empty input is still answered with 400 by \<open>api_blacklist_track\<close>.
\<close>

theorem unparseable_input_answers_400_without_db:
  "get_db_conn offline_env fresh_conn = None
   \<and> api_blacklist_track offline_env \<lparr>payload_input = Some [], payload_blacklisted = None\<rparr>
        fresh_conn
     = ((ErrorMsg ''Could not parse track id'', 400), fresh_conn)"
  by (simp add: api_blacklist_track_empty_input get_db_conn_def offline_env_def py_or_def
      truthy_def)

text \<open>
  The amended C8 at three URIs, one for each route, in a process without a database
  URL.
\<close>

theorem db_unavailable_witness:
  "get_db_conn offline_env fresh_conn = None
   \<and> api_blacklist_track offline_env
        \<lparr>payload_input = Some ''spotify:track:4iV5W9uYEdYUVa79Axb7Rh'', payload_blacklisted = None\<rparr>
        fresh_conn
     = ((ErrorMsg ''DB unavailable'', 500), fresh_conn)
   \<and> api_blacklist_playlist offline_env
        \<lparr>payload_input = Some ''spotify:playlist:37i9dQZF1DXcBWIGoYBM5M'',
          payload_blacklisted = None\<rparr> fresh_conn
     = ((ErrorMsg ''DB unavailable'', 500), fresh_conn)
   \<and> api_whitelist_profile offline_env
        \<lparr>payload_input = Some ''spotify:user:curator1'', payload_blacklisted = None\<rparr> fresh_conn
     = ((ErrorMsg ''DB unavailable'', 500), fresh_conn)"
proof -
  let ?rt = "\<lparr>payload_input = Some ''spotify:track:4iV5W9uYEdYUVa79Axb7Rh'',
               payload_blacklisted = None\<rparr>"
  let ?rp = "\<lparr>payload_input = Some ''spotify:playlist:37i9dQZF1DXcBWIGoYBM5M'',
               payload_blacklisted = None\<rparr>"
  let ?ru = "\<lparr>payload_input = Some ''spotify:user:curator1'', payload_blacklisted = None\<rparr>"
  have off: "get_db_conn offline_env fresh_conn = None"
    by (simp add: get_db_conn_def offline_env_def py_or_def truthy_def)
  have up: "urlparse offline_env = py_urlparse" by (simp add: offline_env_def)
  have vt: "strip ''spotify:track:4iV5W9uYEdYUVa79Axb7Rh''
              = ''spotify:track:4iV5W9uYEdYUVa79Axb7Rh''" by code_simp
  have vp: "strip ''spotify:playlist:37i9dQZF1DXcBWIGoYBM5M''
              = ''spotify:playlist:37i9dQZF1DXcBWIGoYBM5M''" by code_simp
  have vu: "strip ''spotify:user:curator1'' = ''spotify:user:curator1''" by code_simp
  have rt: "extract_id_from_input py_urlparse ''spotify:track:4iV5W9uYEdYUVa79Axb7Rh''
              = (Some ''track'', Some ''4iV5W9uYEdYUVa79Axb7Rh'')" by code_simp
  have rp: "extract_id_from_input py_urlparse ''spotify:playlist:37i9dQZF1DXcBWIGoYBM5M''
              = (Some ''playlist'', Some ''37i9dQZF1DXcBWIGoYBM5M'')" by code_simp
  have ru: "extract_id_from_input py_urlparse ''spotify:user:curator1''
              = (Some ''user'', Some ''curator1'')" by code_simp
  have kt: "kind_correction ''track''
              (fst (extract_id_from_input (urlparse offline_env) (request_val ?rt)))
              (snd (extract_id_from_input (urlparse offline_env) (request_val ?rt)))
              = Inr (Some ''4iV5W9uYEdYUVa79Axb7Rh'')"
    by (simp add: up request_val_literal vt rt kind_correction_def)
  have kp: "kind_correction ''playlist''
              (fst (extract_id_from_input (urlparse offline_env) (request_val ?rp)))
              (snd (extract_id_from_input (urlparse offline_env) (request_val ?rp)))
              = Inr (Some ''37i9dQZF1DXcBWIGoYBM5M'')"
    by (simp add: up request_val_literal vp rp kind_correction_def)
  have ku: "whitelist_candidate offline_env (request_val ?ru) = Inr (Some ''curator1'')"
    by (simp add: up request_val_literal vu ru whitelist_candidate_def truthy_def)
  from db_unavailable [OF off, of ?rt] kt
  have a: "api_blacklist_track offline_env ?rt fresh_conn
             = ((ErrorMsg ''DB unavailable'', 500), fresh_conn)"
    by blast
  from db_unavailable [OF off, of ?rp] kp
  have b: "api_blacklist_playlist offline_env ?rp fresh_conn
             = ((ErrorMsg ''DB unavailable'', 500), fresh_conn)"
    by blast
  from db_unavailable [OF off, of ?ru] ku
  have c: "api_whitelist_profile offline_env ?ru fresh_conn
             = ((ErrorMsg ''DB unavailable'', 500), fresh_conn)"
    by blast
  from off a b c show ?thesis by blast
qed

end
